theory Spec2Isabelle
  imports Complex_Main "HOL-Library.Sublist" "HOL-Library.Multiset"
begin

section \<open>JavaScript string primitives used by the front end\<close>

text \<open>
  A string is the list of its code units, each below 256.  An absent array element
  (\<open>undefined\<close>) is \<open>None\<close>.
\<close>

text \<open>\<open>s.includes(c)\<close> for a one-character needle.\<close>

definition includesChar :: "string \<Rightarrow> char \<Rightarrow> bool" where
  "includesChar s c = (c \<in> set s)"

text \<open>\<open>s.split(c)\<close> for a one-character separator: never empty, \<open>''''.split(c) = ['''']\<close>.\<close>

fun split :: "char \<Rightarrow> string \<Rightarrow> string list" where
  "split c [] = [[]]"
| "split c (x # xs) =
     (if x = c then [] # split c xs
      else (case split c xs of
              [] \<Rightarrow> [[x]]
            | p # ps \<Rightarrow> (x # p) # ps))"

text \<open>Array destructuring \<open>const [a, b, c] = parts\<close>: a missing position is \<open>undefined\<close>.\<close>

definition elemAt :: "'a list \<Rightarrow> nat \<Rightarrow> 'a option" where
  "elemAt xs i = (if i < length xs then Some (xs ! i) else None)"

text \<open>A template-literal hole \<open>${x}\<close>: \<open>undefined\<close> prints as the word itself.\<close>

definition tmpl :: "string option \<Rightarrow> string" where
  "tmpl x = (case x of None \<Rightarrow> ''undefined'' | Some s \<Rightarrow> s)"

text \<open>\<open>s.padStart(n, c)\<close> for a one-character filler.\<close>

definition padStart :: "nat \<Rightarrow> char \<Rightarrow> string \<Rightarrow> string" where
  "padStart n c s = replicate (n - length s) c @ s"

text \<open>The character class \<open>\d\<close> of a regular expression without the unicode flag.\<close>

definition isDigit :: "char \<Rightarrow> bool" where
  "isDigit c = (c \<in> set ''0123456789'')"


section \<open>utils/date.ts\<close>

definition formatDateToBrazilian :: "string \<Rightarrow> string" where
  "formatDateToBrazilian isoDate =
     (if includesChar isoDate CHR ''/'' then isoDate
      else (let parts = split CHR ''-'' isoDate;
                year = elemAt parts 0; month = elemAt parts 1; day = elemAt parts 2
            in tmpl day @ ''/'' @ tmpl month @ ''/'' @ tmpl year))"

text \<open>
  \<open>month.padStart\<close> and \<open>day.padStart\<close> throw a TypeError on \<open>undefined\<close>; the
  \<open>catch\<close> block then returns the argument unchanged.
\<close>

definition formatBrazilianDateToISO :: "string \<Rightarrow> string" where
  "formatBrazilianDateToISO brazilianDate =
     (if includesChar brazilianDate CHR ''-'' then brazilianDate
      else (let parts = split CHR ''/'' brazilianDate;
                day = elemAt parts 0; month = elemAt parts 1; year = elemAt parts 2
            in (case month of
                  None \<Rightarrow> brazilianDate
                | Some m \<Rightarrow>
                    (case day of
                       None \<Rightarrow> brazilianDate
                     | Some d \<Rightarrow>
                         tmpl year @ ''-'' @ padStart 2 CHR ''0'' m @ ''-''
                           @ padStart 2 CHR ''0'' d))))"

text \<open>The regular expression \<open>/^\d{4}-\d{2}-\d{2}$/\<close>.\<close>

fun isoDateRegex :: "string \<Rightarrow> bool" where
  "isoDateRegex [y1, y2, y3, y4, s1, m1, m2, s2, d1, d2] =
     (isDigit y1 \<and> isDigit y2 \<and> isDigit y3 \<and> isDigit y4 \<and> s1 = CHR ''-'' \<and>
      isDigit m1 \<and> isDigit m2 \<and> s2 = CHR ''-'' \<and> isDigit d1 \<and> isDigit d2)"
| "isoDateRegex _ = False"

text \<open>The regular expression \<open>/^\d{2}\/\d{2}\/\d{4}$/\<close>.\<close>

fun brazilianDateRegex :: "string \<Rightarrow> bool" where
  "brazilianDateRegex [d1, d2, s1, m1, m2, s2, y1, y2, y3, y4] =
     (isDigit d1 \<and> isDigit d2 \<and> s1 = CHR ''/'' \<and> isDigit m1 \<and> isDigit m2 \<and>
      s2 = CHR ''/'' \<and> isDigit y1 \<and> isDigit y2 \<and> isDigit y3 \<and> isDigit y4)"
| "brazilianDateRegex _ = False"


text \<open>
  \<open>s.includes(sub)\<close> on strings of any code units: a scan for a position where
  \<open>sub\<close> starts.
\<close>

fun includesStr :: "'c list \<Rightarrow> 'c list \<Rightarrow> bool" where
  "includesStr [] sub = (sub = [])"
| "includesStr (x # xs) sub = (prefix sub (x # xs) \<or> includesStr xs sub)"


section \<open>Errors and the rows of a stock-cost response\<close>

text \<open>
  A thrown exception or a rejected promise is a value: a failed HTTP request seen by the
  front end, a failed database read seen by the server, or a division by zero of
  Python's Decimal.
\<close>

datatype error = ApiError string | DatabaseError string | DivisionByZero

text \<open>
  One element of \<open>results\<close> in the answer of \<open>StockCostViewSet.list\<close>, with the keys
  of \<open>item_data\<close> (\<open>active\<close> is written \<open>active_out\<close>).
  \<open>camelize_dict_keys\<close>, which is not among the sources, renames the keys on the way
  out, so the front end reads \<open>unit_cost\<close> as \<open>unitCost\<close> and
  \<open>last_entry_cost\<close> as \<open>lastEntryCost\<close>.  \<open>None\<close>, JSON \<open>null\<close>, is
  \<open>None\<close>.
\<close>

record StockCost =
  sku :: string
  description :: string
  quantity :: rat
  unity_measure :: string
  unit_cost :: rat
  total_cost :: rat
  active_out :: bool
  last_entry_cost :: "rat option"


section \<open>The stock service (StockService.getStockItems)\<close>

text \<open>
  A request is its path and its query parameters in the order they were appended;
  \<open>URLSearchParams.toString\<close> only encodes them.  The HTTP client is a parameter
  acting on the state of the world behind it.  Logger calls are left out.  JavaScript
  numbers are kept abstract: \<open>String(n)\<close> and the truth test of \<open>n\<close> are the two
  fields of \<open>JsNumbers\<close>.
\<close>

type_synonym request = "string \<times> (string \<times> string) list"

type_synonym ('r, 'w) client = "request \<Rightarrow> 'w \<Rightarrow> (error + 'r) \<times> 'w"

record 'n JsNumbers =
  numberToString :: "'n \<Rightarrow> string"
  numberTruthy :: "'n \<Rightarrow> bool"

record 'n StockFilters =
  codSku :: "(string + 'n) option"
  descricaoItem :: "string option"
  stockDate :: "string option"
  showOnlyStockItems :: "bool option"
  showOnlyActiveItems :: "bool option"
  page_size :: "'n option"
  ordering :: "string option"

text \<open>\<open>if (x) params.append(k, x)\<close> for an optional string.\<close>

definition appendIfTruthy ::
  "string \<Rightarrow> string option \<Rightarrow> (string \<times> string) list" where
  "appendIfTruthy k v =
     (case v of
        Some s \<Rightarrow> (if s \<noteq> [] then [(k, s)] else [])
      | None \<Rightarrow> [])"

text \<open>The value sent as \<open>stockDate\<close> (the variable \<open>d\<close>).\<close>

definition stockDateParam :: "string option \<Rightarrow> string" where
  "stockDateParam sd =
     (case sd of
        None \<Rightarrow> []
      | Some s \<Rightarrow>
          (if s \<noteq> [] \<and> includesChar s CHR ''/''
           then (let parts = split CHR ''/'' s
                 in if length parts = 3
                    then (parts ! 2) @ ''-'' @ padStart 2 CHR ''0'' (parts ! 1) @ ''-''
                           @ padStart 2 CHR ''0'' (parts ! 0)
                    else s)
           else s))"

definition stockParams ::
  "'n JsNumbers \<Rightarrow> 'n \<Rightarrow> 'n StockFilters \<Rightarrow> (string \<times> string) list" where
  "stockParams js page filters =
     [(''page'', numberToString js page)]
     @ (case codSku filters of
          Some (Inl s) \<Rightarrow> (if s \<noteq> [] then [(''codSku'', s)] else [])
        | Some (Inr n) \<Rightarrow>
            (if numberTruthy js n then [(''codSku'', numberToString js n)] else [])
        | None \<Rightarrow> [])
     @ appendIfTruthy ''descricaoItem'' (descricaoItem filters)
     @ (case stockDate filters of
          Some s \<Rightarrow> (if s \<noteq> [] then [(''stockDate'', stockDateParam (stockDate filters))] else [])
        | None \<Rightarrow> [])
     @ (case showOnlyStockItems filters of
          Some b \<Rightarrow> [(''showOnlyStockItems'', if b then ''true'' else ''false'')]
        | None \<Rightarrow> [])
     @ (case showOnlyActiveItems filters of
          Some b \<Rightarrow> [(''showOnlyActiveItems'', if b then ''true'' else ''false'')]
        | None \<Rightarrow> [])
     @ (case page_size filters of
          Some n \<Rightarrow> (if numberTruthy js n then [(''page_size'', numberToString js n)] else [])
        | None \<Rightarrow> [])
     @ appendIfTruthy ''ordering'' (ordering filters)"

text \<open>The \<open>catch\<close> block logs and rethrows.\<close>

definition getStockItems ::
  "'n JsNumbers \<Rightarrow> ('r, 'w) client \<Rightarrow> 'n \<Rightarrow> 'n StockFilters \<Rightarrow> 'w \<Rightarrow> (error + 'r) \<times> 'w" where
  "getStockItems js api page filters w =
     (case api (''/api/v1/stocks/'', stockParams js page filters) w of
        (Inr data, w') \<Rightarrow> (Inr data, w')
      | (Inl err, w') \<Rightarrow> (Inl err, w'))"


section \<open>Cost look-ups of the transaction form (useTransactionForm.ts)\<close>

text \<open>
  A JavaScript value that is \<open>undefined\<close>, \<open>null\<close> or a number.
\<close>

datatype jsnum = JsUndefined | JsNull | JsNum rat

text \<open>
  The body of the response of \<open>/api/v1/itens/<sku>/custo-medio/\<close>: \<open>data\<close> is
  falsy (\<open>None\<close>) or an object whose \<open>custoMedio\<close> is absent, \<open>null\<close> or a
  number.
\<close>

record CustoMedioData =
  custoMedio :: jsnum

text \<open>
  The form's \<open>loadingCost\<close> flag and the world behind the two services.
  \<open>stockCostService.getStockCosts(date, {sku})\<close>, which is not among the sources, is a
  parameter returning the \<open>results\<close> of its response, the rows of the server's answer.
\<close>

record 'w FormWorld =
  loadingCost :: bool
  world :: 'w

type_synonym 'w costService =
  "string option \<Rightarrow> string \<Rightarrow> 'w \<Rightarrow> (error + StockCost list) \<times> 'w"

text \<open>
  The inner \<open>try\<close> returns \<open>data.custoMedio\<close> whenever \<open>data\<close> is truthy and the
  field is not \<open>undefined\<close>, so also when it is \<open>null\<close>; its \<open>catch\<close> only logs.
  The outer \<open>catch\<close> returns 0, and \<open>finally\<close> clears the flag.
\<close>

definition getAverageCost ::
  "(string \<Rightarrow> 'w \<Rightarrow> (error + CustoMedioData option) \<times> 'w) \<Rightarrow> 'w costService \<Rightarrow>
     string \<Rightarrow> 'w FormWorld \<Rightarrow> (error + jsnum) \<times> 'w FormWorld" where
  "getAverageCost apiGet getStockCosts skuArg st =
     (let st1 = st\<lparr>loadingCost := True\<rparr>;
          (r1, w1) = apiGet (''/api/v1/itens/'' @ skuArg @ ''/custo-medio/'') (world st1);
          fromApi = (case r1 of
                       Inr (Some data) \<Rightarrow>
                         (if custoMedio data \<noteq> JsUndefined then Some (custoMedio data)
                          else None)
                     | Inr None \<Rightarrow> None
                     | Inl apiError \<Rightarrow> None)
      in case fromApi of
           Some v \<Rightarrow> (Inr v, st1\<lparr>loadingCost := False, world := w1\<rparr>)
         | None \<Rightarrow>
             (let (r2, w2) = getStockCosts None skuArg w1
              in (case r2 of
                    Inr (c # rest) \<Rightarrow> Inr (JsNum (unit_cost c))
                  | Inr [] \<Rightarrow> Inr (JsNum 0)
                  | Inl err \<Rightarrow> Inr (JsNum 0),
                  st1\<lparr>loadingCost := False, world := w2\<rparr>)))"

text \<open>
  \<open>today\<close> is the value of \<open>getCurrentISODate()\<close> at the call.  The first row's
  \<open>lastEntryCost\<close> is returned as it is, \<open>null\<close> included.
\<close>

definition getLastEntryCost ::
  "'w costService \<Rightarrow> string \<Rightarrow> string \<Rightarrow> 'w FormWorld \<Rightarrow> (error + jsnum) \<times> 'w FormWorld" where
  "getLastEntryCost getStockCosts today skuArg st =
     (let st1 = st\<lparr>loadingCost := True\<rparr>;
          (r, w1) = getStockCosts (Some today) skuArg (world st1)
      in (case r of
            Inr (c # rest) \<Rightarrow>
              Inr (case last_entry_cost c of None \<Rightarrow> JsNull | Some v \<Rightarrow> JsNum v)
          | Inr [] \<Rightarrow> Inr (JsNum 0)
          | Inl err \<Rightarrow> Inr (JsNum 0),
          st1\<lparr>loadingCost := False, world := w1\<rparr>))"


section \<open>Table filtering (useTable.ts, applyFilters)\<close>

text \<open>
  A row maps a field name to its value, of any type; the filters are the entries of the
  filter object in insertion order.  Strings are lists of code units of any type here.
  The built-in conversions \<open>String(v)\<close> and \<open>s.toLowerCase()\<close> are parameters, so
  nothing is assumed about how numbers print or which letters have a lower case.
\<close>

record ('v, 'c) JsStrings =
  toString :: "'v \<Rightarrow> 'c list"
  toLowerCase :: "'c list \<Rightarrow> 'c list"

definition applyFilters ::
  "('v, 'c) JsStrings \<Rightarrow> ('k \<times> 'c list) list \<Rightarrow> ('k \<Rightarrow> 'v) list \<Rightarrow> ('k \<Rightarrow> 'v) list" where
  "applyFilters js filters data =
     filter (\<lambda>item.
        list_all (\<lambda>(field, substr).
           if substr = [] then True
           else (let v = item field
                 in includesStr (toLowerCase js (toString js v)) (toLowerCase js substr)))
          filters)
       data"


section \<open>The stock-cost engine (inventory/api.py, StockCostViewSet.list)\<close>

text \<open>
  The server's code is present as compiled CPython 3.10 bytecode of
  \<open>inventory/api.py\<close>; the definitions below follow the instructions of
  \<open>StockCostViewSet.list\<close> and keep the names of its variables.  The model classes it
  queries (\<open>inventory/models.py\<close>) are not among the sources.
\<close>

text \<open>
  Modelled from the spec: the calendar dates that \<open>data_entrada\<close>, \<open>data_saida\<close>
  and \<open>stock_date\<close> hold, whose field declarations are missing, as year, month and
  day with the order of Python's \<open>date\<close>.
\<close>

type_synonym date = "nat \<times> nat \<times> nat"

fun dateLe :: "date \<Rightarrow> date \<Rightarrow> bool" where
  "dateLe (y1, m1, d1) (y2, m2, d2) =
     (y1 < y2 \<or> (y1 = y2 \<and> (m1 < m2 \<or> (m1 = m2 \<and> d1 \<le> d2))))"

text \<open>
  Modelled from the spec: the missing model class \<open>Item\<close> (section 3), with the
  attributes the engine reads.
\<close>

record Item =
  cod_sku :: string
  descricao_item :: string
  unid_medida :: string
  active :: bool

text \<open>
  Modelled from the spec: the missing model classes \<open>Transacao\<close>, \<open>Entrada\<close> and
  \<open>Saida\<close> (section 3).  A transaction carries the SKU of its item (\<open>cod_sku_id\<close>,
  the column behind the attribute \<open>cod_sku\<close>), and the date of its Entrada row and of
  its Saida row when it has one: an Entry has the first, an Exit the second.
\<close>

record Transacao =
  id_transacao :: nat
  cod_sku_id :: string
  quantidade :: rat
  valor_unit :: rat
  data_entrada :: "date option"
  data_saida :: "date option"

text \<open>
  The database: the rows of the two tables in the order the database returns them, and
  the outcome of each read by its position in the sequence of reads (\<open>None\<close>: the read
  succeeds).
\<close>

record Database =
  item_rows :: "Item list"
  transacao_rows :: "Transacao list"
  failure :: "nat \<Rightarrow> error option"

text \<open>
  What the engine takes from its runtime: \<open>strptime\<close> is
  \<open>datetime.strptime(s, '%Y-%m-%d').date()\<close> with \<open>None\<close> for a ValueError;
  \<open>now_date\<close> is \<open>datetime.now().date()\<close>; \<open>dbFold\<close> is the case folding under
  which the database compares for \<open>icontains\<close>; \<open>ctxRound\<close> is the rounding of the
  Decimal context, applied to the exact result of each Decimal operation; \<open>toFloat\<close>
  is \<open>float\<close> on a Decimal.
\<close>

record Runtime =
  strptime :: "string \<Rightarrow> date option"
  now_date :: date
  dbFold :: "string \<Rightarrow> string"
  ctxRound :: "rat \<Rightarrow> rat"
  toFloat :: "rat \<Rightarrow> rat"

text \<open>
  A computation that reads the database: it takes the number of reads made so far and
  returns an exception or a value together with the new number of reads.
\<close>

type_synonym 'a orm = "nat \<Rightarrow> (error + 'a) \<times> nat"

definition succeed :: "'a \<Rightarrow> 'a orm" where
  "succeed x n = (Inr x, n)"

definition throw :: "error \<Rightarrow> 'a orm" where
  "throw e n = (Inl e, n)"

definition andThen :: "'a orm \<Rightarrow> ('a \<Rightarrow> 'b orm) \<Rightarrow> 'b orm" where
  "andThen m k n =
     (case m n of
        (Inl e, n1) \<Rightarrow> (Inl e, n1)
      | (Inr x, n1) \<Rightarrow> k x n1)"

text \<open>The evaluation of a queryset: one read, which fails or returns its rows.\<close>

definition query :: "Database \<Rightarrow> (Database \<Rightarrow> 'a) \<Rightarrow> 'a orm" where
  "query db q n =
     (case failure db n of
        Some e \<Rightarrow> (Inl e, Suc n)
      | None \<Rightarrow> (Inr (q db), Suc n))"

text \<open>
  Iterating a queryset a second time reuses the rows it cached the first time.
\<close>

definition fetch :: "Database \<Rightarrow> 'a option \<Rightarrow> (Database \<Rightarrow> 'a) \<Rightarrow> 'a orm" where
  "fetch db cache q = (case cache of Some rows \<Rightarrow> succeed rows | None \<Rightarrow> query db q)"

text \<open>\<open>request.query_params.get(key, default)\<close>.\<close>

definition get_param :: "(string \<Rightarrow> string option) \<Rightarrow> string \<Rightarrow> string \<Rightarrow> string" where
  "get_param query_params k dflt = (case query_params k of None \<Rightarrow> dflt | Some v \<Rightarrow> v)"

text \<open>The lookup \<open>field__icontains = x\<close>.\<close>

definition icontains :: "Runtime \<Rightarrow> string \<Rightarrow> string \<Rightarrow> bool" where
  "icontains rt field x = includesStr (dbFold rt field) (dbFold rt x)"

text \<open>
  \<open>items_query\<close>: \<open>Item.objects.all()\<close> narrowed by each filter that is set.
\<close>

definition items_query :: "Runtime \<Rightarrow> string \<Rightarrow> string \<Rightarrow> bool \<Rightarrow> Database \<Rightarrow> Item list" where
  "items_query rt sku_filter description_filter active_only db =
     (let q0 = item_rows db;
          q1 = (if sku_filter \<noteq> []
                then filter (\<lambda>i. icontains rt (cod_sku i) sku_filter) q0 else q0);
          q2 = (if description_filter \<noteq> []
                then filter (\<lambda>i. icontains rt (descricao_item i) description_filter) q1
                else q1);
          q3 = (if active_only then filter (\<lambda>i. active i = True) q2 else q2)
      in q3)"

text \<open>The lookups \<open>entradas__data_entrada__lte = d\<close> and \<open>saidas__data_saida__lte = d\<close>.\<close>

definition entrada_lte :: "date \<Rightarrow> Transacao \<Rightarrow> bool" where
  "entrada_lte d t = (case data_entrada t of None \<Rightarrow> False | Some x \<Rightarrow> dateLe x d)"

definition saida_lte :: "date \<Rightarrow> Transacao \<Rightarrow> bool" where
  "saida_lte d t = (case data_saida t of None \<Rightarrow> False | Some x \<Rightarrow> dateLe x d)"

text \<open>
  \<open>.values('cod_sku').annotate(total = Sum('quantidade'))\<close>: one pair for each SKU
  among the rows, with the sum of its quantities.
\<close>

definition totals_by_sku :: "Transacao list \<Rightarrow> (string \<times> rat) list" where
  "totals_by_sku ts =
     map (\<lambda>s. (s, sum_list (map quantidade (filter (\<lambda>t. cod_sku_id t = s) ts))))
       (remdups (map cod_sku_id ts))"

definition entradas_transacoes :: "date \<Rightarrow> Database \<Rightarrow> (string \<times> rat) list" where
  "entradas_transacoes d db = totals_by_sku (filter (entrada_lte d) (transacao_rows db))"

definition saidas_transacoes :: "date \<Rightarrow> Database \<Rightarrow> (string \<times> rat) list" where
  "saidas_transacoes d db = totals_by_sku (filter (saida_lte d) (transacao_rows db))"

text \<open>
  \<open>next((e for e in totals if e['cod_sku'] == item.cod_sku), default)\<close>: the total of
  the first pair for the SKU, or \<open>None\<close> when the default dictionary, whose total is
  the integer 0, is taken.
\<close>

definition next_total :: "string \<Rightarrow> (string \<times> rat) list \<Rightarrow> rat option" where
  "next_total s totals = map_option snd (find (\<lambda>e. fst e = s) totals)"

text \<open>
  \<open>quantidade = entrada_item['total_entrada'] - saida_item['total_saida']\<close>: a
  Decimal subtraction unless both totals are the integer 0 of the defaults.
\<close>

definition quantidade_of :: "Runtime \<Rightarrow> rat option \<Rightarrow> rat option \<Rightarrow> rat" where
  "quantidade_of rt e s =
     (case (e, s) of
        (None, None) \<Rightarrow> 0
      | (Some a, None) \<Rightarrow> ctxRound rt (a - 0)
      | (None, Some b) \<Rightarrow> ctxRound rt (0 - b)
      | (Some a, Some b) \<Rightarrow> ctxRound rt (a - b))"

text \<open>
  The rows of \<open>Transacao.objects.filter(cod_sku = item.cod_sku, entradas__isnull = False,
  entradas__data_entrada__lte = stock_date)\<close>, and the same for \<open>saidas\<close>.
\<close>

definition entradas_do_item :: "string \<Rightarrow> date \<Rightarrow> Transacao list \<Rightarrow> Transacao list" where
  "entradas_do_item s d ts =
     filter (\<lambda>t. cod_sku_id t = s \<and> data_entrada t \<noteq> None \<and> entrada_lte d t) ts"

definition saidas_do_item :: "string \<Rightarrow> date \<Rightarrow> Transacao list \<Rightarrow> Transacao list" where
  "saidas_do_item s d ts =
     filter (\<lambda>t. cod_sku_id t = s \<and> data_saida t \<noteq> None \<and> saida_lte d t) ts"

text \<open>SQL \<open>SUM\<close>, which is NULL over no rows, and \<open>Coalesce\<close>.\<close>

definition sql_sum :: "rat list \<Rightarrow> rat option" where
  "sql_sum xs = (if xs = [] then None else Some (sum_list xs))"

definition coalesce :: "rat option \<Rightarrow> rat \<Rightarrow> rat" where
  "coalesce x dflt = (case x of None \<Rightarrow> dflt | Some v \<Rightarrow> v)"

text \<open>
  \<open>.aggregate(qtde_total = Coalesce(Sum('quantidade'), Decimal(0)),
  valor_total = Coalesce(Sum(F('valor_unit') * F('quantidade')), Decimal(0)))\<close>,
  computed by the database.
\<close>

record Aggregate =
  qtde_total :: rat
  valor_total :: rat

definition aggregate_totals :: "Transacao list \<Rightarrow> Aggregate" where
  "aggregate_totals ts =
     \<lparr>qtde_total = coalesce (sql_sum (map quantidade ts)) 0,
      valor_total = coalesce (sql_sum (map (\<lambda>t. valor_unit t * quantidade t) ts)) 0\<rparr>"

text \<open>
  \<open>.order_by('-id_transacao').first()\<close>: the row with the largest \<open>id_transacao\<close>,
  \<open>None\<close> when there is no row.
\<close>

fun first_by_id_desc :: "Transacao list \<Rightarrow> Transacao option" where
  "first_by_id_desc [] = None"
| "first_by_id_desc (t # ts) =
     (case first_by_id_desc ts of
        None \<Rightarrow> Some t
      | Some b \<Rightarrow> (if id_transacao b < id_transacao t then Some t else Some b))"

text \<open>Decimal division, which raises on a zero divisor.\<close>

definition decimal_divide :: "Runtime \<Rightarrow> rat \<Rightarrow> rat \<Rightarrow> rat orm" where
  "decimal_divide rt a b = (if b = 0 then throw DivisionByZero else succeed (ctxRound rt (a / b)))"

text \<open>
  The statements of the loop body after the \<open>has_stock\<close> test, up to \<open>item_data\<close>:
  three reads and the arithmetic between them.
\<close>

definition item_costs :: "Runtime \<Rightarrow> Database \<Rightarrow> date \<Rightarrow> Item \<Rightarrow> StockCost orm" where
  "item_costs rt db stock_date item =
     andThen (query db (\<lambda>db. aggregate_totals
                (entradas_do_item (cod_sku item) stock_date (transacao_rows db))))
       (\<lambda>entradas_aggregate.
     andThen (query db (\<lambda>db. aggregate_totals
                (saidas_do_item (cod_sku item) stock_date (transacao_rows db))))
       (\<lambda>saidas_aggregate.
       let entradas_qtde = qtde_total entradas_aggregate;
           entradas_valor = valor_total entradas_aggregate;
           saidas_qtde = qtde_total saidas_aggregate;
           saidas_valor = valor_total saidas_aggregate;
           estoque_atual = ctxRound rt (entradas_qtde - saidas_qtde);
           valor_estoque_atual = ctxRound rt (entradas_valor - saidas_valor)
       in andThen (if estoque_atual > 0
                   then decimal_divide rt valor_estoque_atual estoque_atual
                   else succeed 0)
            (\<lambda>custo_medio.
          let total = ctxRound rt (custo_medio * estoque_atual)
          in andThen (query db (\<lambda>db. first_by_id_desc
                        (entradas_do_item (cod_sku item) stock_date (transacao_rows db))))
               (\<lambda>custo_ultima_entrada.
                succeed
                  \<lparr>sku = cod_sku item,
                   description = descricao_item item,
                   quantity = toFloat rt estoque_atual,
                   unity_measure = unid_medida item,
                   unit_cost = toFloat rt custo_medio,
                   total_cost = toFloat rt total,
                   active_out = active item,
                   last_entry_cost =
                     (case custo_ultima_entrada of
                        Some e \<Rightarrow> Some (toFloat rt (valor_unit e))
                      | None \<Rightarrow> None)\<rparr>))))"

text \<open>
  The loop \<open>for item in items_query\<close>.  \<open>cacheE\<close> and \<open>cacheS\<close> are the rows
  cached by the querysets \<open>entradas_transacoes\<close> and \<open>saidas_transacoes\<close>; the
  recursive call after the \<open>has_stock\<close> test is \<open>continue\<close>.
\<close>

fun item_loop ::
  "Runtime \<Rightarrow> Database \<Rightarrow> date \<Rightarrow> bool \<Rightarrow> Item list \<Rightarrow> (string \<times> rat) list option \<Rightarrow>
     (string \<times> rat) list option \<Rightarrow> StockCost list \<Rightarrow> StockCost list orm" where
  "item_loop rt db stock_date has_stock [] cacheE cacheS result = succeed result"
| "item_loop rt db stock_date has_stock (item # rest) cacheE cacheS result =
     andThen (fetch db cacheE (entradas_transacoes stock_date)) (\<lambda>totalsE.
     andThen (fetch db cacheS (saidas_transacoes stock_date)) (\<lambda>totalsS.
       let entrada_item = next_total (cod_sku item) totalsE;
           saida_item = next_total (cod_sku item) totalsS;
           quantidade_var = quantidade_of rt entrada_item saida_item
       in if has_stock \<and> quantidade_var \<le> 0
          then item_loop rt db stock_date has_stock rest (Some totalsE) (Some totalsS) result
          else andThen (item_costs rt db stock_date item) (\<lambda>item_data.
                 item_loop rt db stock_date has_stock rest (Some totalsE) (Some totalsS)
                   (result @ [item_data]))))"

text \<open>
  The response: its status code, and as data either the dictionary with the key
  \<open>error\<close> or the dictionary with \<open>count\<close> and \<open>results\<close>.
\<close>

datatype response_data = ErrorData string | StockCostsData nat "StockCost list"

record Response =
  status_code :: nat
  data :: response_data

text \<open>
  The answer to a \<open>stockDate\<close> on which \<open>strptime\<close> raises a ValueError; the message
  has the letter a with an acute accent in UTF-8.
\<close>

definition invalid_date_response :: Response where
  "invalid_date_response =
     \<lparr>status_code = 400,
      data = ErrorData (''Formato de data inv'' @ [CHR 0xC3, CHR 0xA1]
                          @ ''lido. Use YYYY-MM-DD'')\<rparr>"

text \<open>
  The first statements of \<open>list\<close>: the date the query is made for, or the answer that
  ends the call.  An absent or empty \<open>stockDate\<close> stands for the current date.
\<close>

definition stock_date_of :: "Runtime \<Rightarrow> (string \<Rightarrow> string option) \<Rightarrow> Response + date" where
  "stock_date_of rt query_params =
     (case query_params ''stockDate'' of
        None \<Rightarrow> Inr (now_date rt)
      | Some s \<Rightarrow>
          (if s \<noteq> []
           then (case strptime rt s of
                   Some d \<Rightarrow> Inr d
                 | None \<Rightarrow> Inl invalid_date_response)
           else Inr (now_date rt)))"

definition StockCostViewSet_list ::
  "Runtime \<Rightarrow> Database \<Rightarrow> (string \<Rightarrow> string option) \<Rightarrow> Response orm" where
  "StockCostViewSet_list rt db query_params =
     (case stock_date_of rt query_params of
        Inl bad_request \<Rightarrow> succeed bad_request
      | Inr stock_date \<Rightarrow>
          (let sku_filter = get_param query_params ''sku'' [];
               description_filter = get_param query_params ''description'' [];
               has_stock = (get_param query_params ''hasStock'' [] = ''true'');
               active_only = (get_param query_params ''active'' [] = ''true'')
           in andThen (query db (items_query rt sku_filter description_filter active_only))
                (\<lambda>rows.
              andThen (item_loop rt db stock_date has_stock rows None None [])
                (\<lambda>result.
                 succeed \<lparr>status_code = 200,
                          data = StockCostsData (length result) result\<rparr>))))"


section \<open>Vocabulary of the properties\<close>

text \<open>
  The quantity the loop tests against \<open>has_stock\<close> for a SKU, from the grouped totals.
\<close>

definition grouped_quantity :: "Runtime \<Rightarrow> date \<Rightarrow> Database \<Rightarrow> string \<Rightarrow> rat" where
  "grouped_quantity rt d db s =
     quantidade_of rt (next_total s (entradas_transacoes d db))
       (next_total s (saidas_transacoes d db))"

text \<open>The row that the loop appends for an item when its three reads succeed.\<close>

definition item_data_of :: "Runtime \<Rightarrow> date \<Rightarrow> Transacao list \<Rightarrow> Item \<Rightarrow> StockCost" where
  "item_data_of rt d ts item =
     (let entradas = entradas_do_item (cod_sku item) d ts;
          saidas = saidas_do_item (cod_sku item) d ts;
          estoque_atual =
            ctxRound rt (sum_list (map quantidade entradas) - sum_list (map quantidade saidas));
          valor_estoque_atual =
            ctxRound rt (sum_list (map (\<lambda>t. valor_unit t * quantidade t) entradas)
                         - sum_list (map (\<lambda>t. valor_unit t * quantidade t) saidas));
          custo_medio =
            (if 0 < estoque_atual then ctxRound rt (valor_estoque_atual / estoque_atual) else 0)
      in \<lparr>sku = cod_sku item,
          description = descricao_item item,
          quantity = toFloat rt estoque_atual,
          unity_measure = unid_medida item,
          unit_cost = toFloat rt custo_medio,
          total_cost = toFloat rt (ctxRound rt (custo_medio * estoque_atual)),
          active_out = active item,
          last_entry_cost =
            map_option (\<lambda>e. toFloat rt (valor_unit e)) (first_by_id_desc entradas)\<rparr>)"

text \<open>
  A computation propagates read failures when it can only end in the exception of the
  last read it made, every earlier read having succeeded, and can only return a value
  when every read it made succeeded.
\<close>

definition propagates :: "Database \<Rightarrow> 'a orm \<Rightarrow> bool" where
  "propagates db m =
     (\<forall>n r n'. m n = (r, n') \<longrightarrow>
        n \<le> n' \<and>
        (case r of
           Inl e \<Rightarrow> n < n' \<and> failure db (n' - 1) = Some e \<and>
                    (\<forall>j. n \<le> j \<and> Suc j < n' \<longrightarrow> failure db j = None)
         | Inr x \<Rightarrow> (\<forall>j. n \<le> j \<and> j < n' \<longrightarrow> failure db j = None)))"


section \<open>Example data\<close>

text \<open>
  A runtime that computes exactly: no rounding, \<open>float\<close> as the identity, a case
  folding of the 26 letters, the clock on 1 February 2024, and a \<open>strptime\<close> that
  knows three dates of January 2024 and raises on every other string.
\<close>

definition exampleFold :: "string \<Rightarrow> string" where
  "exampleFold s =
     map (\<lambda>c. case map_of (zip ''ABCDEFGHIJKLMNOPQRSTUVWXYZ'' ''abcdefghijklmnopqrstuvwxyz'') c of
                None \<Rightarrow> c
              | Some l \<Rightarrow> l) s"

definition exampleStrptime :: "string \<Rightarrow> date option" where
  "exampleStrptime s =
     (if s = ''2024-01-05'' then Some (2024, 1, 5)
      else if s = ''2024-01-15'' then Some (2024, 1, 15)
      else if s = ''2024-01-20'' then Some (2024, 1, 20)
      else None)"

definition exampleRuntime :: Runtime where
  "exampleRuntime =
     \<lparr>strptime = exampleStrptime, now_date = (2024, 2, 1), dbFold = exampleFold,
      ctxRound = (\<lambda>x. x), toFloat = (\<lambda>x. x)\<rparr>"

text \<open>
  A database whose reads all succeed.  Item A001 is the first scenario of section 8 of
  the spec and B002 the second; C003 has moved in and out completely at different unit
  values; D004 has a back-dated Entry that was created last.
\<close>

definition exampleItems :: "Item list" where
  "exampleItems =
     [\<lparr>cod_sku = ''A001'', descricao_item = ''Bolt'', unid_medida = ''un'', active = True\<rparr>,
      \<lparr>cod_sku = ''B002'', descricao_item = ''Gasket'', unid_medida = ''un'', active = True\<rparr>,
      \<lparr>cod_sku = ''C003'', descricao_item = ''Nut'', unid_medida = ''un'', active = True\<rparr>,
      \<lparr>cod_sku = ''D004'', descricao_item = ''Washer'', unid_medida = ''kg'', active = False\<rparr>]"

definition exampleTransacoes :: "Transacao list" where
  "exampleTransacoes =
     [\<lparr>id_transacao = 1, cod_sku_id = ''A001'', quantidade = 10, valor_unit = 2,
        data_entrada = Some (2024, 1, 1), data_saida = None\<rparr>,
      \<lparr>id_transacao = 2, cod_sku_id = ''A001'', quantidade = 5, valor_unit = 3,
        data_entrada = Some (2024, 1, 10), data_saida = None\<rparr>,
      \<lparr>id_transacao = 3, cod_sku_id = ''A001'', quantidade = 8, valor_unit = 233 / 100,
        data_entrada = None, data_saida = Some (2024, 1, 15)\<rparr>,
      \<lparr>id_transacao = 4, cod_sku_id = ''C003'', quantidade = 4, valor_unit = 5 / 2,
        data_entrada = Some (2024, 1, 2), data_saida = None\<rparr>,
      \<lparr>id_transacao = 5, cod_sku_id = ''C003'', quantidade = 4, valor_unit = 2,
        data_entrada = None, data_saida = Some (2024, 1, 3)\<rparr>,
      \<lparr>id_transacao = 7, cod_sku_id = ''D004'', quantidade = 1, valor_unit = 3,
        data_entrada = Some (2024, 1, 1), data_saida = None\<rparr>,
      \<lparr>id_transacao = 6, cod_sku_id = ''D004'', quantidade = 1, valor_unit = 2,
        data_entrada = Some (2024, 1, 10), data_saida = None\<rparr>,
      \<lparr>id_transacao = 8, cod_sku_id = ''B002'', quantidade = 3, valor_unit = 5,
        data_entrada = None, data_saida = Some (2024, 1, 5)\<rparr>]"

definition exampleDatabase :: Database where
  "exampleDatabase =
     \<lparr>item_rows = exampleItems, transacao_rows = exampleTransacoes, failure = (\<lambda>n. None)\<rparr>"

text \<open>Query parameters: none, and a \<open>stockDate\<close> alone.\<close>

definition noParams :: "string \<Rightarrow> string option" where
  "noParams k = None"

definition dateParams :: "string \<Rightarrow> string \<Rightarrow> string option" where
  "dateParams s k = (if k = ''stockDate'' then Some s else None)"

text \<open>The rows the example database gives as of 15 January 2024.\<close>

definition rowA001 :: StockCost where
  "rowA001 = \<lparr>sku = ''A001'', description = ''Bolt'', quantity = 7, unity_measure = ''un'',
               unit_cost = 409 / 175, total_cost = 409 / 25, active_out = True,
               last_entry_cost = Some 3\<rparr>"

definition rowB002 :: StockCost where
  "rowB002 = \<lparr>sku = ''B002'', description = ''Gasket'', quantity = - 3, unity_measure = ''un'',
               unit_cost = 0, total_cost = 0, active_out = True, last_entry_cost = None\<rparr>"

definition rowC003 :: StockCost where
  "rowC003 = \<lparr>sku = ''C003'', description = ''Nut'', quantity = 0, unity_measure = ''un'',
               unit_cost = 0, total_cost = 0, active_out = True, last_entry_cost = Some (5 / 2)\<rparr>"

definition rowD004 :: StockCost where
  "rowD004 = \<lparr>sku = ''D004'', description = ''Washer'', quantity = 2, unity_measure = ''kg'',
               unit_cost = 5 / 2, total_cost = 5, active_out = False, last_entry_cost = Some 3\<rparr>"


text \<open>A \<open>stockDate\<close> together with \<open>hasStock=true\<close>.\<close>

definition hasStockParams :: "string \<Rightarrow> string \<Rightarrow> string option" where
  "hasStockParams s k =
     (if k = ''stockDate'' then Some s else if k = ''hasStock'' then Some ''true'' else None)"

text \<open>The example database when its read number \<open>k\<close> fails.\<close>

definition failingDatabase :: "nat \<Rightarrow> Database" where
  "failingDatabase k =
     exampleDatabase\<lparr>failure := (\<lambda>n. if n = k then Some (DatabaseError ''connection lost'')
                                      else None)\<rparr>"

text \<open>
  Stand-ins for the front end's collaborators.  The world behind them is the number of
  requests made so far.  A JavaScript number is a natural number here, of which only 1
  is printed.
\<close>

definition exampleNumbers :: "nat JsNumbers" where
  "exampleNumbers =
     \<lparr>numberToString = (\<lambda>n. if n = 1 then ''1'' else ''?''), numberTruthy = (\<lambda>n. n \<noteq> 0)\<rparr>"

definition noStockFilters :: "nat StockFilters" where
  "noStockFilters =
     \<lparr>codSku = None, descricaoItem = None, stockDate = None, showOnlyStockItems = None,
      showOnlyActiveItems = None, page_size = None, ordering = None\<rparr>"

definition failingClient :: "('r, nat) client" where
  "failingClient req w = (Inl (ApiError ''Network Error''), Suc w)"

definition failingApiGet :: "string \<Rightarrow> nat \<Rightarrow> (error + CustoMedioData option) \<times> nat" where
  "failingApiGet url w = (Inl (ApiError ''Network Error''), Suc w)"

definition failingCostService :: "nat costService" where
  "failingCostService d s w = (Inl (ApiError ''Network Error''), Suc w)"

definition answeringCostService :: "nat costService" where
  "answeringCostService d s w = (Inr [rowA001], Suc w)"

definition emptyCostService :: "nat costService" where
  "emptyCostService d s w = (Inr [], Suc w)"

text \<open>
  A table of the example items as the front end holds them, a row mapping the name of
  a column to its text, and string built-ins that fold the 26 letters.
\<close>

definition tableRow :: "Item \<Rightarrow> string \<Rightarrow> string" where
  "tableRow i k =
     (if k = ''codSku'' then cod_sku i
      else if k = ''descricaoItem'' then descricao_item i
      else [])"

definition exampleStrings :: "(string, char) JsStrings" where
  "exampleStrings = \<lparr>toString = (\<lambda>v. v), toLowerCase = exampleFold\<rparr>"


section \<open>Properties of the date conversions\<close>

lemma isDigit_not_dash: "isDigit c \<Longrightarrow> c \<noteq> CHR ''-''"
  by (auto simp: isDigit_def)

lemma isDigit_not_slash: "isDigit c \<Longrightarrow> c \<noteq> CHR ''/''"
  by (auto simp: isDigit_def)

lemma iso_roundtrip:
  assumes "isoDateRegex s"
  shows "formatBrazilianDateToISO (formatDateToBrazilian s) = s"
proof -
  from assms obtain y1 y2 y3 y4 m1 m2 d1 d2 where
    s: "s = [y1, y2, y3, y4, CHR ''-'', m1, m2, CHR ''-'', d1, d2]"
    and d: "isDigit y1" "isDigit y2" "isDigit y3" "isDigit y4"
           "isDigit m1" "isDigit m2" "isDigit d1" "isDigit d2"
    by (auto elim!: isoDateRegex.elims)
  note ne = d[THEN isDigit_not_dash] d[THEN isDigit_not_slash]
  have 1: "formatDateToBrazilian s = [d1, d2, CHR ''/'', m1, m2, CHR ''/'', y1, y2, y3, y4]"
    using ne by (simp add: s formatDateToBrazilian_def includesChar_def elemAt_def tmpl_def)
  show ?thesis unfolding 1
    using ne
    by (simp add: s formatBrazilianDateToISO_def includesChar_def elemAt_def tmpl_def
        padStart_def)
qed

lemma brazilian_roundtrip:
  assumes "brazilianDateRegex s"
  shows "formatDateToBrazilian (formatBrazilianDateToISO s) = s"
proof -
  from assms obtain y1 y2 y3 y4 m1 m2 d1 d2 where
    s: "s = [d1, d2, CHR ''/'', m1, m2, CHR ''/'', y1, y2, y3, y4]"
    and d: "isDigit y1" "isDigit y2" "isDigit y3" "isDigit y4"
           "isDigit m1" "isDigit m2" "isDigit d1" "isDigit d2"
    by (auto elim!: brazilianDateRegex.elims)
  note ne = d[THEN isDigit_not_dash] d[THEN isDigit_not_slash]
  have 1: "formatBrazilianDateToISO s = [y1, y2, y3, y4, CHR ''-'', m1, m2, CHR ''-'', d1, d2]"
    using ne
    by (simp add: s formatBrazilianDateToISO_def includesChar_def elemAt_def tmpl_def
        padStart_def)
  show ?thesis unfolding 1
    using ne by (simp add: s formatDateToBrazilian_def includesChar_def elemAt_def tmpl_def)
qed

text \<open>
  Claim C10.  A string matching \<open>/^\d{4}-\d{2}-\d{2}$/\<close> survives the conversion to the
  Brazilian format and back, and a string matching \<open>/^\d{2}\/\d{2}\/\d{4}$/\<close> survives
  the conversion to the ISO format and back.
\<close>

theorem date_format_roundtrip:
  "(isoDateRegex s \<longrightarrow> formatBrazilianDateToISO (formatDateToBrazilian s) = s) \<and>
   (brazilianDateRegex t \<longrightarrow> formatDateToBrazilian (formatBrazilianDateToISO t) = t)"
  by (simp add: iso_roundtrip brazilian_roundtrip)

theorem date_format_roundtrip_witness:
  "isoDateRegex ''2024-01-05'' \<and>
   formatDateToBrazilian ''2024-01-05'' = ''05/01/2024'' \<and>
   formatBrazilianDateToISO (formatDateToBrazilian ''2024-01-05'') = ''2024-01-05'' \<and>
   brazilianDateRegex ''05/01/2024'' \<and>
   formatDateToBrazilian (formatBrazilianDateToISO ''05/01/2024'') = ''05/01/2024''"
proof -
  have i: "isoDateRegex ''2024-01-05''" and b: "brazilianDateRegex ''05/01/2024''"
    by (simp_all add: isDigit_def)
  have f: "formatDateToBrazilian ''2024-01-05'' = ''05/01/2024''"
    by (simp add: formatDateToBrazilian_def includesChar_def elemAt_def tmpl_def)
  from date_format_roundtrip [of "''2024-01-05''" "''05/01/2024''"] i b f
  show ?thesis by blast
qed


section \<open>Properties of the stock-cost engine\<close>

subsection \<open>Read failures are propagated by every computation of the engine\<close>

lemma andThen_Inr:
  "andThen m k n = (Inr y, n') \<longleftrightarrow> (\<exists>x n1. m n = (Inr x, n1) \<and> k x n1 = (Inr y, n'))"
  by (auto simp: andThen_def split: prod.splits sum.splits)

lemma andThen_Inl:
  "andThen m k n = (Inl e, n') \<longleftrightarrow>
     m n = (Inl e, n') \<or> (\<exists>x n1. m n = (Inr x, n1) \<and> k x n1 = (Inl e, n'))"
  by (auto simp: andThen_def split: prod.splits sum.splits)

lemma query_Inr: "query db q n = (Inr x, n') \<longleftrightarrow> failure db n = None \<and> x = q db \<and> n' = Suc n"
  by (auto simp: query_def split: option.splits)

lemma query_Inl: "query db q n = (Inl e, n') \<longleftrightarrow> failure db n = Some e \<and> n' = Suc n"
  by (auto simp: query_def split: option.splits)

lemma propagatesI:
  assumes "\<And>n x n'. m n = (Inr x, n') \<Longrightarrow>
             n \<le> n' \<and> (\<forall>j. n \<le> j \<and> j < n' \<longrightarrow> failure db j = None)"
    and "\<And>n e n'. m n = (Inl e, n') \<Longrightarrow>
             n < n' \<and> failure db (n' - 1) = Some e \<and>
             (\<forall>j. n \<le> j \<and> Suc j < n' \<longrightarrow> failure db j = None)"
  shows "propagates db m"
  unfolding propagates_def
proof (intro allI impI)
  fix n r n'
  assume "m n = (r, n')"
  then show "n \<le> n' \<and>
        (case r of
           Inl e \<Rightarrow> n < n' \<and> failure db (n' - 1) = Some e \<and>
                    (\<forall>j. n \<le> j \<and> Suc j < n' \<longrightarrow> failure db j = None)
         | Inr x \<Rightarrow> (\<forall>j. n \<le> j \<and> j < n' \<longrightarrow> failure db j = None))"
    using assms(1) [of n _ n'] assms(2) [of n _ n']
    by (cases r) (simp_all add: less_imp_le)
qed

lemma propagates_InrD:
  "propagates db m \<Longrightarrow> m n = (Inr x, n') \<Longrightarrow>
     n \<le> n' \<and> (\<forall>j. n \<le> j \<and> j < n' \<longrightarrow> failure db j = None)"
  unfolding propagates_def by (drule spec [of _ n], drule spec [of _ "Inr x"], drule spec [of _ n']) simp

lemma propagates_InlD:
  "propagates db m \<Longrightarrow> m n = (Inl e, n') \<Longrightarrow>
     n < n' \<and> failure db (n' - 1) = Some e \<and>
     (\<forall>j. n \<le> j \<and> Suc j < n' \<longrightarrow> failure db j = None)"
  unfolding propagates_def by (drule spec [of _ n], drule spec [of _ "Inl e"], drule spec [of _ n']) simp

lemma propagates_succeed: "propagates db (succeed x)"
  by (rule propagatesI) (auto simp: succeed_def)

lemma propagates_query: "propagates db (query db q)"
proof (rule propagatesI)
  fix n x n'
  assume "query db q n = (Inr x, n')"
  then have "failure db n = None" "n' = Suc n" by (simp_all add: query_Inr)
  then show "n \<le> n' \<and> (\<forall>j. n \<le> j \<and> j < n' \<longrightarrow> failure db j = None)"
    by (auto simp: less_Suc_eq_le)
next
  fix n e n'
  assume "query db q n = (Inl e, n')"
  then have "failure db n = Some e" "n' = Suc n" by (simp_all add: query_Inl)
  then show "n < n' \<and> failure db (n' - 1) = Some e \<and>
             (\<forall>j. n \<le> j \<and> Suc j < n' \<longrightarrow> failure db j = None)"
    by auto
qed

lemma propagates_fetch: "propagates db (fetch db cache q)"
  by (simp add: fetch_def propagates_succeed propagates_query split: option.splits)

lemma propagates_andThen:
  assumes m: "propagates db m" and k: "\<And>x. propagates db (k x)"
  shows "propagates db (andThen m k)"
proof (rule propagatesI)
  fix n y n'
  assume "andThen m k n = (Inr y, n')"
  then obtain x n1 where m1: "m n = (Inr x, n1)" and k1: "k x n1 = (Inr y, n')"
    by (auto simp: andThen_Inr)
  from propagates_InrD [OF m m1] propagates_InrD [OF k k1]
  show "n \<le> n' \<and> (\<forall>j. n \<le> j \<and> j < n' \<longrightarrow> failure db j = None)"
    by (metis le_trans not_le_imp_less)
next
  fix n e n'
  assume "andThen m k n = (Inl e, n')"
  then consider (first) "m n = (Inl e, n')"
    | (second) x n1 where "m n = (Inr x, n1)" "k x n1 = (Inl e, n')"
    by (auto simp: andThen_Inl)
  then show "n < n' \<and> failure db (n' - 1) = Some e \<and>
             (\<forall>j. n \<le> j \<and> Suc j < n' \<longrightarrow> failure db j = None)"
  proof cases
    case first
    then show ?thesis by (rule propagates_InlD [OF m])
  next
    case second
    from propagates_InrD [OF m second(1)] propagates_InlD [OF k second(2)]
    show ?thesis
      by (metis le_trans less_le_trans not_le_imp_less order.strict_trans1 le_less_trans)
  qed
qed

lemma propagates_divide:
  "propagates db (if 0 < b then decimal_divide rt a b else succeed 0)"
  by (simp add: decimal_divide_def propagates_succeed)

lemma propagates_item_costs: "propagates db (item_costs rt db d item)"
  unfolding item_costs_def Let_def
  by (intro propagates_andThen propagates_query propagates_divide propagates_succeed)

lemma propagates_item_loop:
  "propagates db (item_loop rt db d hs items cacheE cacheS result)"
proof (induction items arbitrary: cacheE cacheS result)
  case Nil
  show ?case by (simp add: propagates_succeed)
next
  case (Cons item rest)
  show ?case
    unfolding item_loop.simps Let_def
    by (intro propagates_andThen propagates_fetch propagates_item_costs
        Cons.IH if_split [where P = "propagates db", THEN iffD2] conjI impI)
qed

lemma propagates_list: "propagates db (StockCostViewSet_list rt db qp)"
  unfolding StockCostViewSet_list_def Let_def
  by (cases "stock_date_of rt qp")
    (auto intro!: propagates_andThen propagates_query propagates_item_loop propagates_succeed)


subsection \<open>What a call that returns has computed\<close>

lemma succeed_eq: "succeed x n = (r, n') \<longleftrightarrow> r = Inr x \<and> n' = n"
  by (auto simp: succeed_def)

lemma fetch_Inr:
  "fetch db cache q n = (Inr x, n') \<Longrightarrow> cache = None \<or> cache = Some (q db) \<Longrightarrow> x = q db"
  by (auto simp: fetch_def succeed_def query_Inr)

lemma coalesce_sql_sum: "coalesce (sql_sum xs) 0 = sum_list xs"
  by (simp add: coalesce_def sql_sum_def)

lemma aggregate_totals_fields:
  "qtde_total (aggregate_totals ts) = sum_list (map quantidade ts)"
  "valor_total (aggregate_totals ts) = sum_list (map (\<lambda>t. valor_unit t * quantidade t) ts)"
  by (simp_all add: aggregate_totals_def coalesce_sql_sum)

lemma item_costs_eval:
  "item_costs rt db d item n =
     (case failure db n of
        Some e \<Rightarrow> (Inl e, Suc n)
      | None \<Rightarrow>
          (case failure db (Suc n) of
             Some e \<Rightarrow> (Inl e, Suc (Suc n))
           | None \<Rightarrow>
               (case failure db (Suc (Suc n)) of
                  Some e \<Rightarrow> (Inl e, Suc (Suc (Suc n)))
                | None \<Rightarrow>
                    (Inr (item_data_of rt d (transacao_rows db) item), Suc (Suc (Suc n))))))"
  by (simp add: item_costs_def andThen_def query_def Let_def decimal_divide_def succeed_def
      item_data_of_def aggregate_totals_fields split: option.splits)

lemma item_costs_Inr:
  assumes "item_costs rt db d item n = (Inr row, n')"
  shows "row = item_data_of rt d (transacao_rows db) item"
  using assms unfolding item_costs_eval by (auto split: option.splits)

lemma item_loop_Inr:
  assumes "item_loop rt db d hs items cacheE cacheS result n = (Inr out, n')"
    and "cacheE = None \<or> cacheE = Some (entradas_transacoes d db)"
    and "cacheS = None \<or> cacheS = Some (saidas_transacoes d db)"
  shows "out = result @ map (item_data_of rt d (transacao_rows db))
           (filter (\<lambda>i. \<not> (hs \<and> grouped_quantity rt d db (cod_sku i) \<le> 0)) items)"
  using assms
proof (induction items arbitrary: cacheE cacheS result n)
  case Nil
  then show ?case by (simp add: succeed_def)
next
  case (Cons item rest)
  let ?s = "cod_sku item"
  from Cons.prems(1) obtain totalsE n1 totalsS n2 where
    fE: "fetch db cacheE (entradas_transacoes d) n = (Inr totalsE, n1)"
    and fS: "fetch db cacheS (saidas_transacoes d) n1 = (Inr totalsS, n2)"
    and body: "(if hs \<and> quantidade_of rt (next_total ?s totalsE) (next_total ?s totalsS) \<le> 0
          then item_loop rt db d hs rest (Some totalsE) (Some totalsS) result
          else andThen (item_costs rt db d item) (\<lambda>item_data.
                 item_loop rt db d hs rest (Some totalsE) (Some totalsS)
                   (result @ [item_data]))) n2 = (Inr out, n')"
    unfolding item_loop.simps andThen_Inr Let_def by blast
  have tE: "totalsE = entradas_transacoes d db"
    using fetch_Inr [OF fE Cons.prems(2)] .
  have tS: "totalsS = saidas_transacoes d db"
    using fetch_Inr [OF fS Cons.prems(3)] .
  have q: "quantidade_of rt (next_total ?s totalsE) (next_total ?s totalsS)
             = grouped_quantity rt d db ?s"
    by (simp add: grouped_quantity_def tE tS)
  show ?case
  proof (cases "hs \<and> grouped_quantity rt d db ?s \<le> 0")
    case True
    with body q have "item_loop rt db d hs rest (Some totalsE) (Some totalsS) result n2
        = (Inr out, n')"
      by simp
    from Cons.IH [OF this] tE tS True show ?thesis by simp
  next
    case False
    with body q obtain row n3 where
      costs: "item_costs rt db d item n2 = (Inr row, n3)"
      and rec: "item_loop rt db d hs rest (Some totalsE) (Some totalsS) (result @ [row]) n3
                  = (Inr out, n')"
      by (auto simp: andThen_Inr)
    from Cons.IH [OF rec] tE tS False item_costs_Inr [OF costs] show ?thesis
      by simp
  qed
qed

lemma list_Inr:
  assumes "StockCostViewSet_list rt db qp n = (Inr resp, n')"
  shows "(stock_date_of rt qp = Inl resp \<and> n' = n) \<or>
         (\<exists>d rows. stock_date_of rt qp = Inr d \<and>
            rows = map (item_data_of rt d (transacao_rows db))
                     (filter (\<lambda>i. \<not> (get_param qp ''hasStock'' [] = ''true'' \<and>
                                      grouped_quantity rt d db (cod_sku i) \<le> 0))
                        (items_query rt (get_param qp ''sku'' [])
                           (get_param qp ''description'' [])
                           (get_param qp ''active'' [] = ''true'') db)) \<and>
            resp = \<lparr>status_code = 200, data = StockCostsData (length rows) rows\<rparr>)"
proof (cases "stock_date_of rt qp")
  case (Inl bad)
  with assms show ?thesis
    by (simp add: StockCostViewSet_list_def succeed_eq)
next
  case (Inr d)
  with assms obtain n1 n2 out where
    loop: "item_loop rt db d (get_param qp ''hasStock'' [] = ''true'')
             (items_query rt (get_param qp ''sku'' []) (get_param qp ''description'' [])
                (get_param qp ''active'' [] = ''true'') db) None None [] n1 = (Inr out, n2)"
    and resp: "resp = \<lparr>status_code = 200, data = StockCostsData (length out) out\<rparr>"
    unfolding StockCostViewSet_list_def Let_def
    by (auto simp: andThen_Inr query_Inr succeed_eq)
  from item_loop_Inr [OF loop] resp Inr show ?thesis
    by simp
qed

lemma list_total:
  assumes "\<forall>j. failure db j = None"
  shows "\<exists>resp n'. StockCostViewSet_list rt db qp n = (Inr resp, n')"
proof -
  obtain r n' where run: "StockCostViewSet_list rt db qp n = (r, n')"
    by (cases "StockCostViewSet_list rt db qp n")
  show ?thesis
  proof (cases r)
    case (Inl e)
    with run propagates_InlD [OF propagates_list, of rt db qp n e n'] assms
    show ?thesis by simp
  next
    case (Inr resp)
    with run show ?thesis by blast
  qed
qed


subsection \<open>The example, evaluated\<close>

lemmas example_defs = exampleRuntime_def exampleDatabase_def exampleItems_def
  exampleTransacoes_def exampleStrptime_def exampleFold_def dateParams_def noParams_def

lemmas engine_defs = StockCostViewSet_list_def stock_date_of_def get_param_def items_query_def
  item_costs_def andThen_def query_def fetch_def succeed_def decimal_divide_def
  entradas_transacoes_def saidas_transacoes_def totals_by_sku_def next_total_def
  quantidade_of_def entradas_do_item_def saidas_do_item_def entrada_lte_def saida_lte_def
  aggregate_totals_def sql_sum_def coalesce_def icontains_def Let_def

lemmas row_defs = rowA001_def rowB002_def rowC003_def rowD004_def

lemma example_call:
  "StockCostViewSet_list exampleRuntime exampleDatabase (dateParams ''2024-01-15'') 0 =
     (Inr \<lparr>status_code = 200, data = StockCostsData 4 [rowA001, rowB002, rowC003, rowD004]\<rparr>,
      15)"
  by (simp add: example_defs engine_defs row_defs)

lemma example_date: "stock_date_of exampleRuntime (dateParams ''2024-01-15'') = Inr (2024, 1, 15)"
  by (simp add: stock_date_of_def example_defs)

lemma call_rowD:
  assumes "StockCostViewSet_list rt db qp n = (Inr resp, n')"
    and "stock_date_of rt qp = Inr d"
    and "data resp = StockCostsData c rows"
    and "row \<in> set rows"
  obtains item where "item \<in> set (item_rows db)"
    and "row = item_data_of rt d (transacao_rows db) item"
proof -
  from list_Inr [OF assms(1)] assms(2,3) have
    "rows = map (item_data_of rt d (transacao_rows db))
              (filter (\<lambda>i. \<not> (get_param qp ''hasStock'' [] = ''true'' \<and>
                               grouped_quantity rt d db (cod_sku i) \<le> 0))
                 (items_query rt (get_param qp ''sku'' []) (get_param qp ''description'' [])
                    (get_param qp ''active'' [] = ''true'') db))"
    by auto
  with assms(4) obtain item where
    "item \<in> set (items_query rt (get_param qp ''sku'' []) (get_param qp ''description'' [])
                    (get_param qp ''active'' [] = ''true'') db)"
    and row: "row = item_data_of rt d (transacao_rows db) item"
    by auto
  then have "item \<in> set (item_rows db)"
    by (auto simp: items_query_def Let_def split: if_splits)
  then show ?thesis using row by (rule that)
qed

lemma item_data_of_sku: "sku (item_data_of rt d ts item) = cod_sku item"
  by (simp add: item_data_of_def Let_def)

subsection \<open>The unit cost and its guard\<close>

lemma unit_cost_of_row:
  assumes "StockCostViewSet_list rt db qp n = (Inr resp, n')"
    and "stock_date_of rt qp = Inr d"
    and "data resp = StockCostsData c rows"
    and "row \<in> set rows"
    and "E = entradas_do_item (sku row) d (transacao_rows db)"
    and "S = saidas_do_item (sku row) d (transacao_rows db)"
    and "currentQty = ctxRound rt (sum_list (map quantidade E) - sum_list (map quantidade S))"
    and "netValue = ctxRound rt (sum_list (map (\<lambda>t. valor_unit t * quantidade t) E)
                                 - sum_list (map (\<lambda>t. valor_unit t * quantidade t) S))"
  shows "quantity row = toFloat rt currentQty \<and>
         (currentQty \<le> 0 \<longrightarrow> unit_cost row = toFloat rt 0) \<and>
         (0 < currentQty \<longrightarrow> unit_cost row = toFloat rt (ctxRound rt (netValue / currentQty)))"
proof -
  from assms(1-4) obtain item where row: "row = item_data_of rt d (transacao_rows db) item"
    by (rule call_rowD)
  have s: "sku row = cod_sku item"
    by (simp add: row item_data_of_sku)
  show ?thesis
    unfolding assms(5-8) s
    by (simp add: row item_data_of_def Let_def not_less)
qed

text \<open>
  Claim C1, as the engine implements it.  The guard is on a positive quantity.  A call
  whose reads all succeed returns a response: the Decimal division never raises.  In a
  response, a row's unit cost is the float of 0 whenever the item's current quantity is
  zero or negative, whatever its net value, and the float of the Decimal quotient of net
  value by current quantity whenever the quantity is positive.
\<close>

theorem unit_cost_guard:
  "((\<forall>j. failure db j = None) \<longrightarrow>
      (\<exists>resp n'. StockCostViewSet_list rt db qp n = (Inr resp, n'))) \<and>
   (\<forall>resp n' d c rows row.
      StockCostViewSet_list rt db qp n = (Inr resp, n') \<and> stock_date_of rt qp = Inr d \<and>
      data resp = StockCostsData c rows \<and> row \<in> set rows \<longrightarrow>
      (let E = entradas_do_item (sku row) d (transacao_rows db);
           S = saidas_do_item (sku row) d (transacao_rows db);
           currentQty = ctxRound rt (sum_list (map quantidade E) - sum_list (map quantidade S));
           netValue = ctxRound rt (sum_list (map (\<lambda>t. valor_unit t * quantidade t) E)
                                   - sum_list (map (\<lambda>t. valor_unit t * quantidade t) S))
       in quantity row = toFloat rt currentQty \<and>
          (currentQty \<le> 0 \<longrightarrow> unit_cost row = toFloat rt 0) \<and>
          (0 < currentQty \<longrightarrow>
             unit_cost row = toFloat rt (ctxRound rt (netValue / currentQty)))))"
proof (intro conjI allI impI)
  assume "\<forall>j. failure db j = None"
  then show "\<exists>resp n'. StockCostViewSet_list rt db qp n = (Inr resp, n')"
    by (rule list_total)
next
  fix resp n' d c rows row
  assume "StockCostViewSet_list rt db qp n = (Inr resp, n') \<and> stock_date_of rt qp = Inr d \<and>
      data resp = StockCostsData c rows \<and> row \<in> set rows"
  then have call: "StockCostViewSet_list rt db qp n = (Inr resp, n')"
    and date: "stock_date_of rt qp = Inr d"
    and dat: "data resp = StockCostsData c rows"
    and row: "row \<in> set rows"
    by simp_all
  show "let E = entradas_do_item (sku row) d (transacao_rows db);
           S = saidas_do_item (sku row) d (transacao_rows db);
           currentQty = ctxRound rt (sum_list (map quantidade E) - sum_list (map quantidade S));
           netValue = ctxRound rt (sum_list (map (\<lambda>t. valor_unit t * quantidade t) E)
                                   - sum_list (map (\<lambda>t. valor_unit t * quantidade t) S))
       in quantity row = toFloat rt currentQty \<and>
          (currentQty \<le> 0 \<longrightarrow> unit_cost row = toFloat rt 0) \<and>
          (0 < currentQty \<longrightarrow>
             unit_cost row = toFloat rt (ctxRound rt (netValue / currentQty)))"
    unfolding Let_def by (rule unit_cost_of_row [OF call date dat row refl refl refl refl])
qed

text \<open>
  Item B002 of the example has quantity -3 and net value -15; its row has unit cost 0,
  not the quotient 5.
\<close>

theorem unit_cost_negative_quantity:
  "StockCostViewSet_list exampleRuntime exampleDatabase (dateParams ''2024-01-15'') 0 =
     (Inr \<lparr>status_code = 200, data = StockCostsData 4 [rowA001, rowB002, rowC003, rowD004]\<rparr>,
      15) \<and>
   quantity rowB002 = - 3 \<and> quantity rowB002 \<noteq> 0 \<and>
   valor_total (aggregate_totals
      (entradas_do_item ''B002'' (2024, 1, 15) (transacao_rows exampleDatabase)))
     - valor_total (aggregate_totals
         (saidas_do_item ''B002'' (2024, 1, 15) (transacao_rows exampleDatabase))) = - 15 \<and>
   unit_cost rowB002 = 0 \<and> unit_cost rowB002 \<noteq> (- 15) / quantity rowB002"
proof -
  have "valor_total (aggregate_totals
      (entradas_do_item ''B002'' (2024, 1, 15) (transacao_rows exampleDatabase)))
     - valor_total (aggregate_totals
         (saidas_do_item ''B002'' (2024, 1, 15) (transacao_rows exampleDatabase))) = - 15"
    by (simp add: example_defs engine_defs)
  then show ?thesis
    using example_call by (simp add: rowB002_def)
qed

theorem unit_cost_guard_witness:
  "failure exampleDatabase 0 = None \<and>
   StockCostViewSet_list exampleRuntime exampleDatabase (dateParams ''2024-01-15'') 0 =
     (Inr \<lparr>status_code = 200, data = StockCostsData 4 [rowA001, rowB002, rowC003, rowD004]\<rparr>,
      15) \<and>
   (\<exists>resp n'. StockCostViewSet_list exampleRuntime exampleDatabase (dateParams ''2024-01-15'') 0
      = (Inr resp, n')) \<and>
   quantity rowC003 = 0 \<and> unit_cost rowC003 = 0 \<and>
   valor_total (aggregate_totals
      (entradas_do_item ''C003'' (2024, 1, 15) (transacao_rows exampleDatabase)))
     - valor_total (aggregate_totals
         (saidas_do_item ''C003'' (2024, 1, 15) (transacao_rows exampleDatabase))) = 2 \<and>
   quantity rowA001 = 7 \<and> unit_cost rowA001 = (409 / 25) / 7"
proof -
  note call = example_call
  let ?resp = "\<lparr>status_code = 200, data = StockCostsData 4 [rowA001, rowB002, rowC003, rowD004]\<rparr>"
  let ?ts = "transacao_rows exampleDatabase"
  note t = unit_cost_guard [of exampleDatabase exampleRuntime "dateParams ''2024-01-15''" 0]
  have none: "\<forall>j. failure exampleDatabase j = None"
    by (simp add: exampleDatabase_def)
  have returns: "\<exists>resp n'. StockCostViewSet_list exampleRuntime exampleDatabase
      (dateParams ''2024-01-15'') 0 = (Inr resp, n')"
    using t [THEN conjunct1] none by (rule mp)
  have c: "StockCostViewSet_list exampleRuntime exampleDatabase (dateParams ''2024-01-15'') 0 =
        (Inr ?resp, 15) \<and>
      stock_date_of exampleRuntime (dateParams ''2024-01-15'') = Inr (2024, 1, 15) \<and>
      data ?resp = StockCostsData 4 [rowA001, rowB002, rowC003, rowD004] \<and>
      rowC003 \<in> set [rowA001, rowB002, rowC003, rowD004]"
    and a: "StockCostViewSet_list exampleRuntime exampleDatabase (dateParams ''2024-01-15'') 0 =
        (Inr ?resp, 15) \<and>
      stock_date_of exampleRuntime (dateParams ''2024-01-15'') = Inr (2024, 1, 15) \<and>
      data ?resp = StockCostsData 4 [rowA001, rowB002, rowC003, rowD004] \<and>
      rowA001 \<in> set [rowA001, rowB002, rowC003, rowD004]"
    using call example_date by simp_all
  have qC: "ctxRound exampleRuntime
      (sum_list (map quantidade (entradas_do_item (sku rowC003) (2024, 1, 15) ?ts))
       - sum_list (map quantidade (saidas_do_item (sku rowC003) (2024, 1, 15) ?ts))) = 0"
    and vC: "valor_total (aggregate_totals (entradas_do_item ''C003'' (2024, 1, 15) ?ts))
       - valor_total (aggregate_totals (saidas_do_item ''C003'' (2024, 1, 15) ?ts)) = 2"
    and qA: "ctxRound exampleRuntime
      (sum_list (map quantidade (entradas_do_item (sku rowA001) (2024, 1, 15) ?ts))
       - sum_list (map quantidade (saidas_do_item (sku rowA001) (2024, 1, 15) ?ts))) = 7"
    and vA: "ctxRound exampleRuntime
      (sum_list (map (\<lambda>t. valor_unit t * quantidade t)
         (entradas_do_item (sku rowA001) (2024, 1, 15) ?ts))
       - sum_list (map (\<lambda>t. valor_unit t * quantidade t)
         (saidas_do_item (sku rowA001) (2024, 1, 15) ?ts))) = 409 / 25"
    by (simp_all add: example_defs engine_defs row_defs)
  from t [THEN conjunct2, rule_format, OF c]
  have "quantity rowC003 = 0 \<and> unit_cost rowC003 = 0"
    unfolding Let_def qC by (simp add: exampleRuntime_def)
  moreover from t [THEN conjunct2, rule_format, OF a]
  have "quantity rowA001 = 7 \<and> unit_cost rowA001 = (409 / 25) / 7"
    unfolding Let_def qA vA by (simp add: exampleRuntime_def)
  ultimately show ?thesis
    using call vC returns none by (intro conjI) simp_all
qed


subsection \<open>The current quantity\<close>

lemma entradas_do_item_eq:
  "entradas_do_item s d ts =
     filter (\<lambda>t. cod_sku_id t = s \<and> (\<exists>x. data_entrada t = Some x \<and> dateLe x d)) ts"
  unfolding entradas_do_item_def entrada_lte_def
  by (rule filter_cong) (auto split: option.splits)








subsection \<open>The cost of the last entry\<close>

lemma first_by_id_desc_None: "first_by_id_desc ts = None \<longleftrightarrow> ts = []"
  by (induction ts) (auto split: option.splits)

lemma first_by_id_desc_Some:
  "first_by_id_desc ts = Some b \<Longrightarrow>
     b \<in> set ts \<and> (\<forall>e \<in> set ts. id_transacao e \<le> id_transacao b)"
proof (induction ts arbitrary: b)
  case Nil
  then show ?case by simp
next
  case (Cons t ts)
  show ?case
  proof (cases "first_by_id_desc ts")
    case None
    then have "ts = []" by (simp add: first_by_id_desc_None)
    with Cons.prems show ?thesis by simp
  next
    case (Some b')
    from Cons.IH [OF Some] Cons.prems Some show ?thesis
      by (fastforce split: if_splits)
  qed
qed

lemma first_by_id_desc_strict_max:
  assumes "e \<in> set ts"
    and "\<forall>e' \<in> set ts. e' \<noteq> e \<longrightarrow> id_transacao e' < id_transacao e"
  shows "first_by_id_desc ts = Some e"
proof (cases "first_by_id_desc ts")
  case None
  with assms(1) show ?thesis by (simp add: first_by_id_desc_None)
next
  case (Some b)
  from first_by_id_desc_Some [OF Some] assms have "b = e"
    by (metis leD)
  with Some show ?thesis by simp
qed

text \<open>
  Claim C3, as the engine implements it.  With \<open>Q\<close> the item's Entries dated at or
  before the stock date: the last-entry cost of a row is the float of the unit value of
  the transaction of \<open>Q\<close> whose \<open>id_transacao\<close> exceeds that of every other one,
  whatever the dates are, and it is \<open>None\<close> (JSON null), not 0, when \<open>Q\<close> is empty.
\<close>

theorem last_entry_cost_largest_id:
  assumes "StockCostViewSet_list rt db qp n = (Inr resp, n')"
    and "stock_date_of rt qp = Inr d"
    and "data resp = StockCostsData c rows"
    and "row \<in> set rows"
    and "Q = filter (\<lambda>t. cod_sku_id t = sku row \<and> (\<exists>x. data_entrada t = Some x \<and> dateLe x d))
               (transacao_rows db)"
  shows "(Q = [] \<longrightarrow> last_entry_cost row = None) \<and>
         (\<forall>e \<in> set Q.
            (\<forall>e' \<in> set Q. e' \<noteq> e \<longrightarrow> id_transacao e' < id_transacao e) \<longrightarrow>
            last_entry_cost row = Some (toFloat rt (valor_unit e)))"
proof -
  from assms(1-4) obtain item where row: "row = item_data_of rt d (transacao_rows db) item"
    by (rule call_rowD)
  have Q: "Q = entradas_do_item (cod_sku item) d (transacao_rows db)"
    by (simp add: assms(5) row item_data_of_sku entradas_do_item_eq)
  have last: "last_entry_cost row = map_option (\<lambda>e. toFloat rt (valor_unit e)) (first_by_id_desc Q)"
    by (simp add: row item_data_of_def Let_def Q)
  have none: "last_entry_cost row = None" if "Q = []"
    using that by (simp add: last)
  have some: "last_entry_cost row = Some (toFloat rt (valor_unit e))"
    if "e \<in> set Q" "\<forall>e' \<in> set Q. e' \<noteq> e \<longrightarrow> id_transacao e' < id_transacao e" for e
    using first_by_id_desc_strict_max [OF that] by (simp add: last)
  from none some show ?thesis by blast
qed

text \<open>
  Item B002 of the example has no Entry, and the last-entry cost of its row is
  \<open>None\<close>, not 0.
\<close>

theorem last_entry_cost_null:
  "StockCostViewSet_list exampleRuntime exampleDatabase (dateParams ''2024-01-15'') 0 =
     (Inr \<lparr>status_code = 200, data = StockCostsData 4 [rowA001, rowB002, rowC003, rowD004]\<rparr>,
      15) \<and>
   entradas_do_item ''B002'' (2024, 1, 15) exampleTransacoes = [] \<and>
   sku rowB002 = ''B002'' \<and>
   last_entry_cost rowB002 = None \<and> last_entry_cost rowB002 \<noteq> Some 0"
  using example_call by (simp add: rowB002_def exampleTransacoes_def entradas_do_item_def)

theorem last_entry_cost_largest_id_witness:
  "StockCostViewSet_list exampleRuntime exampleDatabase (dateParams ''2024-01-15'') 0 =
     (Inr \<lparr>status_code = 200, data = StockCostsData 4 [rowA001, rowB002, rowC003, rowD004]\<rparr>,
      15) \<and>
   filter (\<lambda>t. cod_sku_id t = ''D004'' \<and>
             (\<exists>x. data_entrada t = Some x \<and> dateLe x (2024, 1, 15))) exampleTransacoes =
     [\<lparr>id_transacao = 7, cod_sku_id = ''D004'', quantidade = 1, valor_unit = 3,
        data_entrada = Some (2024, 1, 1), data_saida = None\<rparr>,
      \<lparr>id_transacao = 6, cod_sku_id = ''D004'', quantidade = 1, valor_unit = 2,
        data_entrada = Some (2024, 1, 10), data_saida = None\<rparr>] \<and>
   last_entry_cost rowD004 = Some 3 \<and>
   last_entry_cost rowB002 = None"
proof -
  let ?resp = "\<lparr>status_code = 200, data = StockCostsData 4 [rowA001, rowB002, rowC003, rowD004]\<rparr>"
  let ?d = "(2024, 1, 15) :: date"
  let ?newest = "\<lparr>id_transacao = 7, cod_sku_id = ''D004'', quantidade = 1, valor_unit = 3,
        data_entrada = Some (2024, 1, 1), data_saida = None\<rparr>"
  let ?later = "\<lparr>id_transacao = 6, cod_sku_id = ''D004'', quantidade = 1, valor_unit = 2,
        data_entrada = Some (2024, 1, 10), data_saida = None\<rparr>"
  let ?QD = "filter (\<lambda>t. cod_sku_id t = sku rowD004 \<and>
             (\<exists>x. data_entrada t = Some x \<and> dateLe x ?d)) (transacao_rows exampleDatabase)"
  let ?QB = "filter (\<lambda>t. cod_sku_id t = sku rowB002 \<and>
             (\<exists>x. data_entrada t = Some x \<and> dateLe x ?d)) (transacao_rows exampleDatabase)"
  have dat: "data ?resp = StockCostsData 4 [rowA001, rowB002, rowC003, rowD004]"
    by simp
  have dm: "rowD004 \<in> set [rowA001, rowB002, rowC003, rowD004]"
    and bm: "rowB002 \<in> set [rowA001, rowB002, rowC003, rowD004]"
    by simp_all
  have QD: "?QD = [?newest, ?later]"
    by (simp add: exampleDatabase_def exampleTransacoes_def rowD004_def)
  have QB: "?QB = []"
    by (simp add: exampleDatabase_def exampleTransacoes_def rowB002_def)
  have top: "\<forall>e' \<in> set ?QD. e' \<noteq> ?newest \<longrightarrow> id_transacao e' < id_transacao ?newest"
    unfolding QD by simp
  have mem: "?newest \<in> set ?QD"
    unfolding QD by simp
  from last_entry_cost_largest_id [OF example_call example_date dat dm refl] mem top
  have "last_entry_cost rowD004 = Some (toFloat exampleRuntime (valor_unit ?newest))"
    by blast
  then have d: "last_entry_cost rowD004 = Some 3"
    by (simp add: exampleRuntime_def)
  from last_entry_cost_largest_id [OF example_call example_date dat bm refl] QB
  have b: "last_entry_cost rowB002 = None"
    by blast
  have "filter (\<lambda>t. cod_sku_id t = ''D004'' \<and>
             (\<exists>x. data_entrada t = Some x \<and> dateLe x ?d)) exampleTransacoes
          = [?newest, ?later]"
    by (simp add: exampleTransacoes_def)
  with example_call d b show ?thesis by (intro conjI)
qed


subsection \<open>The quantity that the loop tests\<close>

lemma find_map_key:
  "find (\<lambda>e. fst e = s) (map (\<lambda>k. (k, g k)) ks) = (if s \<in> set ks then Some (s, g s) else None)"
  by (induction ks) auto

lemma next_total_totals_by_sku:
  "next_total s (totals_by_sku ts) =
     (if filter (\<lambda>t. cod_sku_id t = s) ts = [] then None
      else Some (sum_list (map quantidade (filter (\<lambda>t. cod_sku_id t = s) ts))))"
  unfolding next_total_def totals_by_sku_def find_map_key
  by (auto simp: filter_empty_conv)

lemma filter_entrada_lte:
  "filter (\<lambda>t. cod_sku_id t = s) (filter (entrada_lte d) ts) = entradas_do_item s d ts"
  unfolding entradas_do_item_def entrada_lte_def
  by (induction ts) (auto split: option.splits)

lemma filter_saida_lte:
  "filter (\<lambda>t. cod_sku_id t = s) (filter (saida_lte d) ts) = saidas_do_item s d ts"
  unfolding saidas_do_item_def saida_lte_def
  by (induction ts) (auto split: option.splits)

text \<open>
  The quantity from the grouped totals is the one from the item's own aggregates, but
  for the integer 0 of an item that has neither Entries nor Exits.
\<close>

lemma grouped_quantity_eq:
  "grouped_quantity rt d db s =
     (let E = entradas_do_item s d (transacao_rows db);
          S = saidas_do_item s d (transacao_rows db)
      in if E = [] \<and> S = [] then 0
         else ctxRound rt (sum_list (map quantidade E) - sum_list (map quantidade S)))"
  unfolding grouped_quantity_def entradas_transacoes_def saidas_transacoes_def
    next_total_totals_by_sku filter_entrada_lte filter_saida_lte quantidade_of_def Let_def
  by simp

lemma has_stock_param: "get_param qp ''hasStock'' [] = ''true'' \<longleftrightarrow> qp ''hasStock'' = Some ''true''"
  by (cases "qp ''hasStock''") (simp_all add: get_param_def)

lemma example_call_has_stock:
  "StockCostViewSet_list exampleRuntime exampleDatabase (hasStockParams ''2024-01-15'') 0 =
     (Inr \<lparr>status_code = 200, data = StockCostsData 2 [rowA001, rowD004]\<rparr>, 9)"
  by (simp add: example_defs engine_defs row_defs hasStockParams_def)

lemma example_date_has_stock:
  "stock_date_of exampleRuntime (hasStockParams ''2024-01-15'') = Inr (2024, 1, 15)"
  by (simp add: stock_date_of_def example_defs hasStockParams_def)

subsection \<open>A malformed date\<close>



subsection \<open>The filter on items in stock\<close>

text \<open>
  Claim C4, as the engine implements it.  The candidates are the items of
  \<open>items_query\<close>, which \<open>hasStock\<close> does not narrow.  With \<open>hasStock=true\<close> the
  rows of the response are those of the candidates whose aggregated current quantity is
  greater than 0, in the order of the candidates: an item is left out exactly when its
  quantity is 0 or negative.  Otherwise every candidate has its row.
\<close>

theorem has_stock_filter:
  assumes "StockCostViewSet_list rt db qp n = (Inr resp, n')"
    and "stock_date_of rt qp = Inr d"
    and "data resp = StockCostsData c rows"
    and "ts = transacao_rows db"
    and "candidates = items_query rt (get_param qp ''sku'' []) (get_param qp ''description'' [])
                        (get_param qp ''active'' [] = ''true'') db"
    and "currentQty = (\<lambda>i.
           let E = entradas_do_item (cod_sku i) d ts;
               S = saidas_do_item (cod_sku i) d ts
           in if E = [] \<and> S = [] then 0
              else ctxRound rt (sum_list (map quantidade E) - sum_list (map quantidade S)))"
  shows "(qp ''hasStock'' = Some ''true'' \<longrightarrow>
            rows = map (item_data_of rt d ts) (filter (\<lambda>i. \<not> currentQty i \<le> 0) candidates)) \<and>
         (qp ''hasStock'' \<noteq> Some ''true'' \<longrightarrow>
            rows = map (item_data_of rt d ts) candidates) \<and>
         c = length rows"
proof -
  have q: "grouped_quantity rt d db (cod_sku i) = currentQty i" for i
    by (simp add: grouped_quantity_eq assms(4,6))
  from list_Inr [OF assms(1)] assms(2,3)
  have rows: "rows = map (item_data_of rt d ts)
      (filter (\<lambda>i. \<not> (qp ''hasStock'' = Some ''true'' \<and> currentQty i \<le> 0)) candidates)"
    and c: "c = length rows"
    by (auto simp: has_stock_param q assms(4,5))
  have a: "rows = map (item_data_of rt d ts) (filter (\<lambda>i. \<not> currentQty i \<le> 0) candidates)"
    if "qp ''hasStock'' = Some ''true''"
    using rows that by simp
  have b: "rows = map (item_data_of rt d ts) candidates" if "qp ''hasStock'' \<noteq> Some ''true''"
    using rows that by simp
  from a b c show ?thesis by blast
qed

text \<open>
  Item B002 of the example has the current quantity \<open>-3\<close>, which is not 0, and
  \<open>hasStock=true\<close> leaves it out all the same.
\<close>

theorem has_stock_drops_negative:
  "StockCostViewSet_list exampleRuntime exampleDatabase (dateParams ''2024-01-15'') 0 =
     (Inr \<lparr>status_code = 200, data = StockCostsData 4 [rowA001, rowB002, rowC003, rowD004]\<rparr>,
      15) \<and>
   quantity rowB002 = - 3 \<and>
   quantity rowB002 \<noteq> 0 \<and>
   StockCostViewSet_list exampleRuntime exampleDatabase (hasStockParams ''2024-01-15'') 0 =
     (Inr \<lparr>status_code = 200, data = StockCostsData 2 [rowA001, rowD004]\<rparr>, 9) \<and>
   rowB002 \<notin> set [rowA001, rowD004]"
proof -
  have "quantity rowB002 = - 3" "quantity rowB002 \<noteq> 0" "rowB002 \<notin> set [rowA001, rowD004]"
    by (simp_all add: row_defs)
  with example_call example_call_has_stock show ?thesis by (intro conjI)
qed

theorem has_stock_filter_witness:
  "StockCostViewSet_list exampleRuntime exampleDatabase (hasStockParams ''2024-01-15'') 0 =
     (Inr \<lparr>status_code = 200, data = StockCostsData 2 [rowA001, rowD004]\<rparr>, 9) \<and>
   items_query exampleRuntime [] [] False exampleDatabase = exampleItems \<and>
   map quantity (map (item_data_of exampleRuntime (2024, 1, 15) exampleTransacoes) exampleItems)
     = [7, - 3, 0, 2] \<and>
   [rowA001, rowD004] =
     map (item_data_of exampleRuntime (2024, 1, 15) exampleTransacoes)
       [exampleItems ! 0, exampleItems ! 3] \<and>
   StockCostViewSet_list exampleRuntime exampleDatabase (dateParams ''2024-01-15'') 0 =
     (Inr \<lparr>status_code = 200, data = StockCostsData 4 [rowA001, rowB002, rowC003, rowD004]\<rparr>,
      15) \<and>
   [rowA001, rowB002, rowC003, rowD004] =
     map (item_data_of exampleRuntime (2024, 1, 15) exampleTransacoes) exampleItems"
proof -
  let ?resp = "\<lparr>status_code = 200, data = StockCostsData 2 [rowA001, rowD004]\<rparr>"
  let ?d = "(2024, 1, 15) :: date"
  let ?q = "\<lambda>i. let E = entradas_do_item (cod_sku i) ?d exampleTransacoes;
                     S = saidas_do_item (cod_sku i) ?d exampleTransacoes
                 in if E = [] \<and> S = [] then 0
                    else ctxRound exampleRuntime
                           (sum_list (map quantidade E) - sum_list (map quantidade S))"
  have dat: "data ?resp = StockCostsData 2 [rowA001, rowD004]"
    by simp
  have ts: "exampleTransacoes = transacao_rows exampleDatabase"
    by (simp add: exampleDatabase_def)
  have cand: "exampleItems =
      items_query exampleRuntime (get_param (hasStockParams ''2024-01-15'') ''sku'' [])
        (get_param (hasStockParams ''2024-01-15'') ''description'' [])
        (get_param (hasStockParams ''2024-01-15'') ''active'' [] = ''true'') exampleDatabase"
    by (simp add: items_query_def get_param_def hasStockParams_def exampleDatabase_def)
  have hs: "hasStockParams ''2024-01-15'' ''hasStock'' = Some ''true''"
    by (simp add: hasStockParams_def)
  have kept: "filter (\<lambda>i. \<not> ?q i \<le> 0) exampleItems = [exampleItems ! 0, exampleItems ! 3]"
    by (simp add: exampleItems_def exampleTransacoes_def exampleRuntime_def
        entradas_do_item_def saidas_do_item_def entrada_lte_def saida_lte_def)
  from has_stock_filter [OF example_call_has_stock example_date_has_stock dat ts cand refl] hs
  have "[rowA001, rowD004] = map (item_data_of exampleRuntime ?d exampleTransacoes)
      (filter (\<lambda>i. \<not> ?q i \<le> 0) exampleItems)"
    by blast
  then have rows: "[rowA001, rowD004] =
      map (item_data_of exampleRuntime ?d exampleTransacoes) [exampleItems ! 0, exampleItems ! 3]"
    unfolding kept .
  have all: "items_query exampleRuntime [] [] False exampleDatabase = exampleItems"
    by (simp add: items_query_def exampleDatabase_def)
  have qs: "map quantity (map (item_data_of exampleRuntime ?d exampleTransacoes) exampleItems)
      = [7, - 3, 0, 2]"
    by (simp add: item_data_of_def exampleItems_def exampleTransacoes_def exampleRuntime_def
        entradas_do_item_def saidas_do_item_def entrada_lte_def saida_lte_def Let_def)
  have dat4: "data \<lparr>status_code = 200,
      data = StockCostsData 4 [rowA001, rowB002, rowC003, rowD004]\<rparr> =
      StockCostsData 4 [rowA001, rowB002, rowC003, rowD004]"
    by simp
  have cand4: "exampleItems =
      items_query exampleRuntime (get_param (dateParams ''2024-01-15'') ''sku'' [])
        (get_param (dateParams ''2024-01-15'') ''description'' [])
        (get_param (dateParams ''2024-01-15'') ''active'' [] = ''true'') exampleDatabase"
    by (simp add: items_query_def get_param_def dateParams_def exampleDatabase_def)
  have no_hs: "dateParams ''2024-01-15'' ''hasStock'' \<noteq> Some ''true''"
    by (simp add: dateParams_def)
  from has_stock_filter [OF example_call example_date dat4 ts cand4 refl] no_hs
  have every: "[rowA001, rowB002, rowC003, rowD004] =
      map (item_data_of exampleRuntime ?d exampleTransacoes) exampleItems"
    by blast
  from example_call_has_stock all qs rows example_call every show ?thesis by (intro conjI)
qed

subsection \<open>An item with a negative quantity\<close>

lemma entradas_do_item_of_sku:
  "entradas_do_item s d ts = entradas_do_item s d (filter (\<lambda>t. cod_sku_id t = s) ts)"
  unfolding entradas_do_item_def by (induction ts) auto

lemma saidas_do_item_of_sku:
  "saidas_do_item s d ts = saidas_do_item s d (filter (\<lambda>t. cod_sku_id t = s) ts)"
  unfolding saidas_do_item_def by (induction ts) auto

text \<open>
  Claim C5, as the engine implements it.  Let the only transaction of an item be an
  Exit of quantity 3 at unit value 5, dated at or before the stock date, so that the
  Decimal difference \<open>0 - 3\<close> is not positive.  Every row of the item has that
  difference as quantity, the unit cost 0 of the guard, the total cost \<open>0 * quantity\<close>
  and no last-entry cost (\<open>None\<close>); and the item has a row exactly when it is a
  candidate and \<open>hasStock=true\<close> is not set.
\<close>

theorem negative_quantity_scenario:
  assumes "StockCostViewSet_list rt db qp n = (Inr resp, n')"
    and "stock_date_of rt qp = Inr d"
    and "data resp = StockCostsData c rows"
    and "filter (\<lambda>t. cod_sku_id t = s) (transacao_rows db) =
           [\<lparr>id_transacao = k, cod_sku_id = s, quantidade = 3, valor_unit = 5,
              data_entrada = None, data_saida = Some x\<rparr>]"
    and "dateLe x d"
    and "ctxRound rt (0 - 3) \<le> 0"
    and "candidates = items_query rt (get_param qp ''sku'' []) (get_param qp ''description'' [])
                        (get_param qp ''active'' [] = ''true'') db"
  shows "(\<forall>row \<in> set rows. sku row = s \<longrightarrow>
            quantity row = toFloat rt (ctxRound rt (0 - 3)) \<and>
            unit_cost row = toFloat rt 0 \<and>
            total_cost row = toFloat rt (ctxRound rt (0 * ctxRound rt (0 - 3))) \<and>
            last_entry_cost row = None) \<and>
         ((\<exists>row \<in> set rows. sku row = s) \<longleftrightarrow>
            (\<exists>i \<in> set candidates. cod_sku i = s) \<and> qp ''hasStock'' \<noteq> Some ''true'')"
proof -
  let ?ts = "transacao_rows db"
  let ?tx = "\<lparr>id_transacao = k, cod_sku_id = s, quantidade = 3, valor_unit = 5,
              data_entrada = None, data_saida = Some x\<rparr>"
  have E: "entradas_do_item s d ?ts = []"
    by (subst entradas_do_item_of_sku) (simp add: assms(4) entradas_do_item_def)
  have S: "saidas_do_item s d ?ts = [?tx]"
    using assms(5) by (subst saidas_do_item_of_sku)
      (cases x, simp add: assms(4) saidas_do_item_def saida_lte_def)
  have row: "quantity (item_data_of rt d ?ts i) = toFloat rt (ctxRound rt (0 - 3)) \<and>
      unit_cost (item_data_of rt d ?ts i) = toFloat rt 0 \<and>
      total_cost (item_data_of rt d ?ts i) = toFloat rt (ctxRound rt (0 * ctxRound rt (0 - 3))) \<and>
      last_entry_cost (item_data_of rt d ?ts i) = None"
    if "cod_sku i = s" for i
    using assms(6) by (simp add: item_data_of_def Let_def that E S)
  have gq: "grouped_quantity rt d db s = ctxRound rt (0 - 3)"
    by (simp add: grouped_quantity_eq E S)
  from list_Inr [OF assms(1)] assms(2,3)
  have rows: "rows = map (item_data_of rt d ?ts)
      (filter (\<lambda>i. \<not> (qp ''hasStock'' = Some ''true'' \<and> grouped_quantity rt d db (cod_sku i) \<le> 0))
         candidates)"
    by (auto simp: has_stock_param assms(7))
  have fields: "\<forall>row \<in> set rows. sku row = s \<longrightarrow>
            quantity row = toFloat rt (ctxRound rt (0 - 3)) \<and>
            unit_cost row = toFloat rt 0 \<and>
            total_cost row = toFloat rt (ctxRound rt (0 * ctxRound rt (0 - 3))) \<and>
            last_entry_cost row = None"
  proof (intro ballI impI)
    fix r assume "r \<in> set rows" and s: "sku r = s"
    then obtain i where r: "r = item_data_of rt d ?ts i"
      unfolding rows by auto
    with s have "cod_sku i = s"
      by (simp add: item_data_of_sku)
    from row [OF this] show "quantity r = toFloat rt (ctxRound rt (0 - 3)) \<and>
            unit_cost r = toFloat rt 0 \<and>
            total_cost r = toFloat rt (ctxRound rt (0 * ctxRound rt (0 - 3))) \<and>
            last_entry_cost r = None"
      unfolding r .
  qed
  have "(\<exists>row \<in> set rows. sku row = s) \<longleftrightarrow>
      (\<exists>i \<in> set candidates. cod_sku i = s \<and>
          \<not> (qp ''hasStock'' = Some ''true'' \<and> grouped_quantity rt d db (cod_sku i) \<le> 0))"
    unfolding rows by (auto simp: item_data_of_sku)
  also have "\<dots> \<longleftrightarrow> (\<exists>i \<in> set candidates. cod_sku i = s) \<and> qp ''hasStock'' \<noteq> Some ''true''"
    using gq assms(6) by auto
  finally show ?thesis using fields by blast
qed

text \<open>
  For item B002 of the example, whose net value is \<open>-15\<close>, the engine answers with
  the quantity \<open>-3\<close>, the unit cost 0 and not 5, the total cost 0 and not \<open>-15\<close>,
  and no last-entry cost rather than 0.
\<close>

theorem negative_quantity_example:
  "StockCostViewSet_list exampleRuntime exampleDatabase (dateParams ''2024-01-15'') 0 =
     (Inr \<lparr>status_code = 200, data = StockCostsData 4 [rowA001, rowB002, rowC003, rowD004]\<rparr>,
      15) \<and>
   valor_total (aggregate_totals (entradas_do_item ''B002'' (2024, 1, 15) exampleTransacoes))
     - valor_total (aggregate_totals (saidas_do_item ''B002'' (2024, 1, 15) exampleTransacoes))
     = - 15 \<and>
   sku rowB002 = ''B002'' \<and>
   quantity rowB002 = - 3 \<and>
   unit_cost rowB002 = 0 \<and> unit_cost rowB002 \<noteq> 5 \<and>
   total_cost rowB002 = 0 \<and> total_cost rowB002 \<noteq> - 15 \<and>
   last_entry_cost rowB002 = None \<and> last_entry_cost rowB002 \<noteq> Some 0"
proof -
  have "valor_total (aggregate_totals (entradas_do_item ''B002'' (2024, 1, 15) exampleTransacoes))
     - valor_total (aggregate_totals (saidas_do_item ''B002'' (2024, 1, 15) exampleTransacoes))
     = - 15"
    by (simp add: exampleTransacoes_def entradas_do_item_def saidas_do_item_def
        entrada_lte_def saida_lte_def aggregate_totals_def sql_sum_def coalesce_def)
  moreover have "sku rowB002 = ''B002''" "quantity rowB002 = - 3"
    "unit_cost rowB002 = 0" "unit_cost rowB002 \<noteq> 5"
    "total_cost rowB002 = 0" "total_cost rowB002 \<noteq> - 15"
    "last_entry_cost rowB002 = None" "last_entry_cost rowB002 \<noteq> Some 0"
    by (simp_all add: rowB002_def)
  ultimately show ?thesis using example_call by (intro conjI)
qed

theorem negative_quantity_scenario_witness:
  "StockCostViewSet_list exampleRuntime exampleDatabase (dateParams ''2024-01-20'') 0 =
     (Inr \<lparr>status_code = 200, data = StockCostsData 4 [rowA001, rowB002, rowC003, rowD004]\<rparr>,
      15) \<and>
   filter (\<lambda>t. cod_sku_id t = ''B002'') exampleTransacoes =
     [\<lparr>id_transacao = 8, cod_sku_id = ''B002'', quantidade = 3, valor_unit = 5,
        data_entrada = None, data_saida = Some (2024, 1, 5)\<rparr>] \<and>
   dateLe (2024, 1, 5) (2024, 1, 20) \<and>
   sku rowB002 = ''B002'' \<and>
   quantity rowB002 = - 3 \<and> unit_cost rowB002 = 0 \<and> total_cost rowB002 = 0 \<and>
   last_entry_cost rowB002 = None \<and>
   (\<exists>row \<in> set [rowA001, rowB002, rowC003, rowD004]. sku row = ''B002'')"
proof -
  let ?resp = "\<lparr>status_code = 200, data = StockCostsData 4 [rowA001, rowB002, rowC003, rowD004]\<rparr>"
  let ?qp = "dateParams ''2024-01-20''"
  have call: "StockCostViewSet_list exampleRuntime exampleDatabase ?qp 0 = (Inr ?resp, 15)"
    by (simp add: example_defs engine_defs row_defs)
  have date: "stock_date_of exampleRuntime ?qp = Inr (2024, 1, 20)"
    by (simp add: stock_date_of_def example_defs)
  have dat: "data ?resp = StockCostsData 4 [rowA001, rowB002, rowC003, rowD004]"
    by simp
  have only: "filter (\<lambda>t. cod_sku_id t = ''B002'') (transacao_rows exampleDatabase) =
     [\<lparr>id_transacao = 8, cod_sku_id = ''B002'', quantidade = 3, valor_unit = 5,
        data_entrada = None, data_saida = Some (2024, 1, 5)\<rparr>]"
    by (simp add: exampleDatabase_def exampleTransacoes_def)
  have le: "dateLe (2024, 1, 5) (2024, 1, 20)"
    by simp
  have neg: "ctxRound exampleRuntime (0 - 3) \<le> 0"
    by (simp add: exampleRuntime_def)
  have b: "rowB002 \<in> set [rowA001, rowB002, rowC003, rowD004]"
    by simp
  have sk: "sku rowB002 = ''B002''"
    by (simp add: rowB002_def)
  note t = negative_quantity_scenario [OF call date dat only le neg refl]
  from t b sk have "quantity rowB002 = toFloat exampleRuntime (ctxRound exampleRuntime (0 - 3)) \<and>
            unit_cost rowB002 = toFloat exampleRuntime 0 \<and>
            total_cost rowB002 = toFloat exampleRuntime
              (ctxRound exampleRuntime (0 * ctxRound exampleRuntime (0 - 3))) \<and>
            last_entry_cost rowB002 = None"
    by blast
  then have f: "quantity rowB002 = - 3" "unit_cost rowB002 = 0" "total_cost rowB002 = 0"
    "last_entry_cost rowB002 = None"
    by (simp_all add: exampleRuntime_def)
  have ex: "\<exists>row \<in> set [rowA001, rowB002, rowC003, rowD004]. sku row = ''B002''"
    using b sk by blast
  have only': "filter (\<lambda>t. cod_sku_id t = ''B002'') exampleTransacoes =
     [\<lparr>id_transacao = 8, cod_sku_id = ''B002'', quantidade = 3, valor_unit = 5,
        data_entrada = None, data_saida = Some (2024, 1, 5)\<rparr>]"
    using only by (simp add: exampleDatabase_def)
  from call only' le sk f ex show ?thesis by (intro conjI)
qed


subsection \<open>Substring filters\<close>

lemma includesStr_sublist: "includesStr s sub \<longleftrightarrow> sublist sub s"
  by (induction s) (simp_all add: sublist_Cons_right)

lemma includesStr_iff: "includesStr s sub \<longleftrightarrow> (\<exists>p q. s = p @ sub @ q)"
  by (simp add: includesStr_sublist sublist_def)

text \<open>
  Claim C9.  The table filter of the front end keeps a row exactly when every filter
  value that is not empty occurs, after \<open>toLowerCase\<close>, as a substring of the
  lower-cased \<open>String(value)\<close> of its column.  The engine's candidates are the items
  whose SKU contains the \<open>sku\<close> filter and whose description contains the
  \<open>description\<close> filter, each when it is not empty, under the case folding of the
  database (and which are active, when that is asked for).
\<close>

theorem substring_filters:
  "applyFilters js filters table =
     filter (\<lambda>item. \<forall>(field, substr) \<in> set filters.
               substr \<noteq> [] \<longrightarrow>
               (\<exists>p q. toLowerCase js (toString js (item field)) = p @ toLowerCase js substr @ q))
       table \<and>
   items_query rt sku_filter description_filter active_only db =
     filter (\<lambda>i. (sku_filter \<noteq> [] \<longrightarrow>
                    (\<exists>p q. dbFold rt (cod_sku i) = p @ dbFold rt sku_filter @ q)) \<and>
                 (description_filter \<noteq> [] \<longrightarrow>
                    (\<exists>p q. dbFold rt (descricao_item i) = p @ dbFold rt description_filter @ q)) \<and>
                 (active_only \<longrightarrow> active i))
       (item_rows db)"
proof
  show "applyFilters js filters table =
     filter (\<lambda>item. \<forall>(field, substr) \<in> set filters.
               substr \<noteq> [] \<longrightarrow>
               (\<exists>p q. toLowerCase js (toString js (item field)) = p @ toLowerCase js substr @ q))
       table"
    unfolding applyFilters_def Let_def includesStr_iff
    by (rule filter_cong [OF refl]) (auto simp: list_all_iff)
  show "items_query rt sku_filter description_filter active_only db =
     filter (\<lambda>i. (sku_filter \<noteq> [] \<longrightarrow>
                    (\<exists>p q. dbFold rt (cod_sku i) = p @ dbFold rt sku_filter @ q)) \<and>
                 (description_filter \<noteq> [] \<longrightarrow>
                    (\<exists>p q. dbFold rt (descricao_item i) = p @ dbFold rt description_filter @ q)) \<and>
                 (active_only \<longrightarrow> active i))
       (item_rows db)"
    unfolding items_query_def Let_def icontains_def includesStr_iff
    by (auto intro!: filter_cong)
qed

theorem substring_filters_witness:
  "applyFilters exampleStrings [(''descricaoItem'', ''AS''), (''codSku'', [])]
     (map tableRow exampleItems) = [tableRow (exampleItems ! 1), tableRow (exampleItems ! 3)] \<and>
   map (\<lambda>r. r ''descricaoItem'') (map tableRow exampleItems) =
     [''Bolt'', ''Gasket'', ''Nut'', ''Washer''] \<and>
   items_query exampleRuntime ''b0'' ''ASK'' False exampleDatabase = [exampleItems ! 1]"
proof -
  note t = substring_filters [where js = exampleStrings
      and filters = "[(''descricaoItem'', ''AS''), (''codSku'', [])]"
      and table = "map tableRow exampleItems" and rt = exampleRuntime and sku_filter = "''b0''"
      and description_filter = "''ASK''" and active_only = False and db = exampleDatabase,
      unfolded includesStr_iff [symmetric]]
  have a: "applyFilters exampleStrings [(''descricaoItem'', ''AS''), (''codSku'', [])]
     (map tableRow exampleItems) = [tableRow (exampleItems ! 1), tableRow (exampleItems ! 3)]"
    unfolding t [THEN conjunct1]
    by (simp add: exampleStrings_def exampleFold_def tableRow_def exampleItems_def)
  have b: "items_query exampleRuntime ''b0'' ''ASK'' False exampleDatabase = [exampleItems ! 1]"
    unfolding t [THEN conjunct2]
    by (simp add: exampleRuntime_def exampleFold_def exampleDatabase_def exampleItems_def)
  have c: "map (\<lambda>r. r ''descricaoItem'') (map tableRow exampleItems) =
     [''Bolt'', ''Gasket'', ''Nut'', ''Washer'']"
    by (simp add: tableRow_def exampleItems_def)
  from a c b show ?thesis by (intro conjI)
qed

subsection \<open>Failed reads\<close>

text \<open>
  Claim C8, as the code implements it.  In the engine a failed read ends the call at
  once with the exception of that read: a call that raises has made no read after the
  one whose exception it raises, and every read before it succeeded; a call that returns
  a response has made only reads that succeeded; so the first read to fail either is not
  reached or ends the call, and a failure of the read of the items ends it after that
  one read.  \<open>getStockItems\<close> rethrows the failure of its request.  The cost look-ups
  of the transaction form do not: after a failed request for the average cost
  \<open>getAverageCost\<close> reads the stock costs and returns the unit cost of their first
  row, or 0 when there is no row or when this read fails too, and \<open>getLastEntryCost\<close>
  returns 0 when its read fails.
\<close>

theorem read_failure_handling:
  "(\<forall>e n'. StockCostViewSet_list rt db qp n = (Inl e, n') \<longrightarrow>
      n < n' \<and> failure db (n' - 1) = Some e \<and>
      (\<forall>j. n \<le> j \<and> Suc j < n' \<longrightarrow> failure db j = None)) \<and>
   (\<forall>resp n'. StockCostViewSet_list rt db qp n = (Inr resp, n') \<longrightarrow>
      (\<forall>j. n \<le> j \<and> j < n' \<longrightarrow> failure db j = None)) \<and>
   (\<forall>e j. n \<le> j \<and> failure db j = Some e \<and> (\<forall>i. n \<le> i \<and> i < j \<longrightarrow> failure db i = None) \<longrightarrow>
      StockCostViewSet_list rt db qp n = (Inl e, Suc j) \<or>
      (\<exists>resp n'. StockCostViewSet_list rt db qp n = (Inr resp, n') \<and> n' \<le> j)) \<and>
   (\<forall>e d. stock_date_of rt qp = Inr d \<and> failure db n = Some e \<longrightarrow>
      StockCostViewSet_list rt db qp n = (Inl e, Suc n)) \<and>
   (\<forall>err w'. api (''/api/v1/stocks/'', stockParams js page filters) w = (Inl err, w') \<longrightarrow>
      getStockItems js api page filters w = (Inl err, w')) \<and>
   (\<forall>err w1. apiGet (''/api/v1/itens/'' @ skuArg @ ''/custo-medio/'') (world st) = (Inl err, w1) \<longrightarrow>
      (\<forall>c rest w2. getStockCosts None skuArg w1 = (Inr (c # rest), w2) \<longrightarrow>
         getAverageCost apiGet getStockCosts skuArg st =
           (Inr (JsNum (unit_cost c)), st\<lparr>loadingCost := False, world := w2\<rparr>)) \<and>
      (\<forall>w2. getStockCosts None skuArg w1 = (Inr [], w2) \<longrightarrow>
         getAverageCost apiGet getStockCosts skuArg st =
           (Inr (JsNum 0), st\<lparr>loadingCost := False, world := w2\<rparr>)) \<and>
      (\<forall>err2 w2. getStockCosts None skuArg w1 = (Inl err2, w2) \<longrightarrow>
         getAverageCost apiGet getStockCosts skuArg st =
           (Inr (JsNum 0), st\<lparr>loadingCost := False, world := w2\<rparr>))) \<and>
   (\<forall>err w1. getStockCosts (Some today) skuArg (world st) = (Inl err, w1) \<longrightarrow>
      getLastEntryCost getStockCosts today skuArg st =
        (Inr (JsNum 0), st\<lparr>loadingCost := False, world := w1\<rparr>))"
proof (intro conjI)
  show "\<forall>e n'. StockCostViewSet_list rt db qp n = (Inl e, n') \<longrightarrow>
      n < n' \<and> failure db (n' - 1) = Some e \<and>
      (\<forall>j. n \<le> j \<and> Suc j < n' \<longrightarrow> failure db j = None)"
    using propagates_InlD [OF propagates_list] by blast
  show "\<forall>resp n'. StockCostViewSet_list rt db qp n = (Inr resp, n') \<longrightarrow>
      (\<forall>j. n \<le> j \<and> j < n' \<longrightarrow> failure db j = None)"
    using propagates_InrD [OF propagates_list] by blast
  show "\<forall>e j. n \<le> j \<and> failure db j = Some e \<and> (\<forall>i. n \<le> i \<and> i < j \<longrightarrow> failure db i = None) \<longrightarrow>
      StockCostViewSet_list rt db qp n = (Inl e, Suc j) \<or>
      (\<exists>resp n'. StockCostViewSet_list rt db qp n = (Inr resp, n') \<and> n' \<le> j)"
  proof (intro allI impI)
    fix e j
    assume first: "n \<le> j \<and> failure db j = Some e \<and> (\<forall>i. n \<le> i \<and> i < j \<longrightarrow> failure db i = None)"
    obtain r n' where run: "StockCostViewSet_list rt db qp n = (r, n')"
      by (cases "StockCostViewSet_list rt db qp n")
    show "StockCostViewSet_list rt db qp n = (Inl e, Suc j) \<or>
        (\<exists>resp n'. StockCostViewSet_list rt db qp n = (Inr resp, n') \<and> n' \<le> j)"
    proof (cases r)
      case (Inl e')
      from propagates_InlD [OF propagates_list run [unfolded Inl]]
      have lt: "n < n'" and f: "failure db (n' - 1) = Some e'"
        and before: "\<forall>i. n \<le> i \<and> Suc i < n' \<longrightarrow> failure db i = None"
        by blast+
      obtain m where m: "n' = Suc m" "n \<le> m"
        using lt by (cases n') auto
      have f': "failure db m = Some e'"
        using f m by simp
      have "\<not> j < m"
      proof
        assume "j < m"
        then have "Suc j < n'" using m by simp
        with before first have "failure db j = None" by blast
        with first show False by simp
      qed
      moreover have "\<not> m < j"
      proof
        assume "m < j"
        with first m have "failure db m = None" by blast
        with f' show False by simp
      qed
      ultimately have "m = j"
        by simp
      with f' first m have "e' = e" "n' = Suc j"
        by auto
      with run Inl show ?thesis by simp
    next
      case (Inr resp)
      from propagates_InrD [OF propagates_list run [unfolded Inr]] first
      have "n' \<le> j"
        by (metis not_le_imp_less option.distinct(1))
      with run Inr show ?thesis by blast
    qed
  qed
  show "\<forall>e d. stock_date_of rt qp = Inr d \<and> failure db n = Some e \<longrightarrow>
      StockCostViewSet_list rt db qp n = (Inl e, Suc n)"
    by (simp add: StockCostViewSet_list_def Let_def andThen_def query_def)
  show "\<forall>err w'. api (''/api/v1/stocks/'', stockParams js page filters) w = (Inl err, w') \<longrightarrow>
      getStockItems js api page filters w = (Inl err, w')"
    by (simp add: getStockItems_def)
  show "\<forall>err w1. apiGet (''/api/v1/itens/'' @ skuArg @ ''/custo-medio/'') (world st) = (Inl err, w1) \<longrightarrow>
      (\<forall>c rest w2. getStockCosts None skuArg w1 = (Inr (c # rest), w2) \<longrightarrow>
         getAverageCost apiGet getStockCosts skuArg st =
           (Inr (JsNum (unit_cost c)), st\<lparr>loadingCost := False, world := w2\<rparr>)) \<and>
      (\<forall>w2. getStockCosts None skuArg w1 = (Inr [], w2) \<longrightarrow>
         getAverageCost apiGet getStockCosts skuArg st =
           (Inr (JsNum 0), st\<lparr>loadingCost := False, world := w2\<rparr>)) \<and>
      (\<forall>err2 w2. getStockCosts None skuArg w1 = (Inl err2, w2) \<longrightarrow>
         getAverageCost apiGet getStockCosts skuArg st =
           (Inr (JsNum 0), st\<lparr>loadingCost := False, world := w2\<rparr>))"
    by (simp add: getAverageCost_def Let_def)
  show "\<forall>err w1. getStockCosts (Some today) skuArg (world st) = (Inl err, w1) \<longrightarrow>
      getLastEntryCost getStockCosts today skuArg st =
        (Inr (JsNum 0), st\<lparr>loadingCost := False, world := w1\<rparr>)"
    by (simp add: getLastEntryCost_def Let_def)
qed

text \<open>
  Both reads of \<open>getAverageCost\<close> fail, one after the other, and it returns 0; the
  read of \<open>getLastEntryCost\<close> fails, and it returns 0.
\<close>

theorem cost_lookups_return_zero:
  "failingApiGet (''/api/v1/itens/'' @ ''A001'' @ ''/custo-medio/'') 0 =
     (Inl (ApiError ''Network Error''), 1) \<and>
   failingCostService None ''A001'' 1 = (Inl (ApiError ''Network Error''), 2) \<and>
   getAverageCost failingApiGet failingCostService ''A001'' \<lparr>loadingCost = False, world = 0\<rparr> =
     (Inr (JsNum 0), \<lparr>loadingCost = False, world = 2\<rparr>) \<and>
   failingCostService (Some ''2024-02-01'') ''A001'' 0 = (Inl (ApiError ''Network Error''), 1) \<and>
   getLastEntryCost failingCostService ''2024-02-01'' ''A001'' \<lparr>loadingCost = False, world = 0\<rparr> =
     (Inr (JsNum 0), \<lparr>loadingCost = False, world = 1\<rparr>)"
  by (simp add: getAverageCost_def getLastEntryCost_def failingApiGet_def failingCostService_def
      Let_def)

theorem read_failure_handling_witness:
  "StockCostViewSet_list exampleRuntime (failingDatabase 4) (dateParams ''2024-01-15'') 0 =
     (Inl (DatabaseError ''connection lost''), 5) \<and>
   failure (failingDatabase 4) 4 = Some (DatabaseError ''connection lost'') \<and>
   failure (failingDatabase 4) 3 = None \<and>
   StockCostViewSet_list exampleRuntime (failingDatabase 0) (dateParams ''2024-01-15'') 0 =
     (Inl (DatabaseError ''connection lost''), 1) \<and>
   StockCostViewSet_list exampleRuntime exampleDatabase (dateParams ''2024-01-15'') 0 =
     (Inr \<lparr>status_code = 200, data = StockCostsData 4 [rowA001, rowB002, rowC003, rowD004]\<rparr>,
      15) \<and>
   failure exampleDatabase 14 = None \<and>
   getStockItems exampleNumbers (failingClient :: (request, nat) client) 1 noStockFilters 0 =
     (Inl (ApiError ''Network Error''), 1) \<and>
   getAverageCost failingApiGet answeringCostService ''A001'' \<lparr>loadingCost = False, world = 0\<rparr> =
     (Inr (JsNum (409 / 175)), \<lparr>loadingCost = False, world = 2\<rparr>) \<and>
   getAverageCost failingApiGet emptyCostService ''A001'' \<lparr>loadingCost = False, world = 0\<rparr> =
     (Inr (JsNum 0), \<lparr>loadingCost = False, world = 2\<rparr>) \<and>
   getAverageCost failingApiGet failingCostService ''A001'' \<lparr>loadingCost = False, world = 0\<rparr> =
     (Inr (JsNum 0), \<lparr>loadingCost = False, world = 2\<rparr>) \<and>
   getLastEntryCost failingCostService ''2024-02-01'' ''A001'' \<lparr>loadingCost = False, world = 0\<rparr> =
     (Inr (JsNum 0), \<lparr>loadingCost = False, world = 1\<rparr>)"
proof -
  let ?st = "\<lparr>loadingCost = False, world = 0 :: nat\<rparr>"
  let ?err = "ApiError ''Network Error''"
  let ?lost = "DatabaseError ''connection lost''"
  let ?qp = "dateParams ''2024-01-15''"
  let ?client = "failingClient :: (request, nat) client"
  have run4: "StockCostViewSet_list exampleRuntime (failingDatabase 4) ?qp 0 = (Inl ?lost, 5)"
    by (simp add: failingDatabase_def example_defs engine_defs)
  have date: "stock_date_of exampleRuntime ?qp = Inr (2024, 1, 15) \<and>
      failure (failingDatabase 0) 0 = Some ?lost"
    by (simp add: stock_date_of_def example_defs failingDatabase_def)
  have stocks: "?client (''/api/v1/stocks/'', stockParams exampleNumbers 1 noStockFilters) 0
      = (Inl ?err, 1)"
    by (simp add: failingClient_def)
  have api: "failingApiGet (''/api/v1/itens/'' @ ''A001'' @ ''/custo-medio/'') (world ?st)
      = (Inl ?err, 1)"
    by (simp add: failingApiGet_def)
  have answer: "answeringCostService None ''A001'' 1 = (Inr (rowA001 # []), 2)"
    by (simp add: answeringCostService_def)
  have empty: "emptyCostService None ''A001'' 1 = (Inr [], 2)"
    by (simp add: emptyCostService_def)
  have fail: "failingCostService None ''A001'' 1 = (Inl ?err, 2)"
    by (simp add: failingCostService_def)
  have last: "failingCostService (Some ''2024-02-01'') ''A001'' (world ?st) = (Inl ?err, 1)"
    by (simp add: failingCostService_def)
  note t4 = read_failure_handling [where rt = exampleRuntime and db = "failingDatabase 4"
      and qp = ?qp and n = 0 and js = exampleNumbers and api = ?client and page = 1
      and filters = noStockFilters and w = 0 and apiGet = failingApiGet and skuArg = "''A001''"
      and st = ?st and getStockCosts = failingCostService and today = "''2024-02-01''"]
  note t0 = read_failure_handling [where rt = exampleRuntime and db = "failingDatabase 0"
      and qp = ?qp and n = 0 and js = exampleNumbers and api = ?client and page = 1
      and filters = noStockFilters and w = 0 and apiGet = failingApiGet and skuArg = "''A001''"
      and st = ?st and getStockCosts = answeringCostService and today = "''2024-02-01''"]
  note tE = read_failure_handling [where rt = exampleRuntime and db = exampleDatabase
      and qp = ?qp and n = 0 and js = exampleNumbers and api = ?client and page = 1
      and filters = noStockFilters and w = 0 and apiGet = failingApiGet and skuArg = "''A001''"
      and st = ?st and getStockCosts = emptyCostService and today = "''2024-02-01''"]
  from t4 [THEN conjunct1, rule_format, OF run4]
  have f4: "failure (failingDatabase 4) 4 = Some ?lost" "failure (failingDatabase 4) 3 = None"
    by simp_all
  have run0: "StockCostViewSet_list exampleRuntime (failingDatabase 0) ?qp 0 = (Inl ?lost, 1)"
    using t0 [THEN conjunct2, THEN conjunct2, THEN conjunct2, THEN conjunct1, rule_format, OF date]
    by simp
  from tE [THEN conjunct2, THEN conjunct1, rule_format, OF example_call, of 14]
  have fE: "failure exampleDatabase 14 = None"
    by simp
  have g: "getStockItems exampleNumbers ?client 1 noStockFilters 0 = (Inl ?err, 1)"
    using t4 [THEN conjunct2, THEN conjunct2, THEN conjunct2, THEN conjunct2, THEN conjunct1,
        rule_format, OF stocks] .
  note a4 = t4 [THEN conjunct2, THEN conjunct2, THEN conjunct2, THEN conjunct2, THEN conjunct2,
      THEN conjunct1, rule_format, OF api]
  note a0 = t0 [THEN conjunct2, THEN conjunct2, THEN conjunct2, THEN conjunct2, THEN conjunct2,
      THEN conjunct1, rule_format, OF api]
  note aE = tE [THEN conjunct2, THEN conjunct2, THEN conjunct2, THEN conjunct2, THEN conjunct2,
      THEN conjunct1, rule_format, OF api]
  have avg_answer: "getAverageCost failingApiGet answeringCostService ''A001'' ?st =
      (Inr (JsNum (409 / 175)), \<lparr>loadingCost = False, world = 2\<rparr>)"
    using a0 [THEN conjunct1, rule_format, OF answer] by (simp add: rowA001_def)
  have avg_empty: "getAverageCost failingApiGet emptyCostService ''A001'' ?st =
      (Inr (JsNum 0), \<lparr>loadingCost = False, world = 2\<rparr>)"
    using aE [THEN conjunct2, THEN conjunct1, rule_format, OF empty] by simp
  have avg_fail: "getAverageCost failingApiGet failingCostService ''A001'' ?st =
      (Inr (JsNum 0), \<lparr>loadingCost = False, world = 2\<rparr>)"
    using a4 [THEN conjunct2, THEN conjunct2, rule_format, OF fail] by simp
  have last0: "getLastEntryCost failingCostService ''2024-02-01'' ''A001'' ?st =
      (Inr (JsNum 0), \<lparr>loadingCost = False, world = 1\<rparr>)"
    using t4 [THEN conjunct2, THEN conjunct2, THEN conjunct2, THEN conjunct2, THEN conjunct2,
        THEN conjunct2, rule_format, OF last] by simp
  from run4 f4 run0 example_call fE g avg_answer avg_empty avg_fail last0
  show ?thesis by (intro conjI)
qed


subsection \<open>Repeated calls\<close>

lemma sum_list_filter_mset:
  fixes f :: "'a \<Rightarrow> rat"
  assumes "mset xs' = mset xs"
  shows "sum_list (map f (filter P xs')) = sum_list (map f (filter P xs))"
proof -
  have "mset (map f (filter P xs')) = mset (map f (filter P xs))"
    using assms by simp
  then show ?thesis
    by (metis sum_mset_sum_list)
qed

lemma filter_Nil_mset:
  assumes "mset xs' = mset xs"
  shows "filter P xs' = [] \<longleftrightarrow> filter P xs = []"
proof -
  have "mset (filter P xs') = mset (filter P xs)"
    using assms by simp
  then show ?thesis
    by (metis mset_zero_iff)
qed

lemma first_by_id_desc_mset:
  assumes "mset xs' = mset xs" and "distinct (map id_transacao xs)"
  shows "first_by_id_desc xs' = first_by_id_desc xs"
proof (cases "first_by_id_desc xs")
  case None
  then have "xs = []" by (simp add: first_by_id_desc_None)
  with assms(1) have "xs' = []" by simp
  with None show ?thesis by simp
next
  case (Some b)
  have sets: "set xs' = set xs"
    using assms(1) by (rule mset_eq_setD)
  show ?thesis
  proof (cases "first_by_id_desc xs'")
    case None
    then have "xs' = []" by (simp add: first_by_id_desc_None)
    with assms(1) have "xs = []" by simp
    with Some show ?thesis by simp
  next
    case b': (Some b')
    from first_by_id_desc_Some [OF Some] first_by_id_desc_Some [OF b'] sets
    have "b \<in> set xs" "b' \<in> set xs" "id_transacao b = id_transacao b'"
      by (auto intro: antisym)
    moreover have "inj_on id_transacao (set xs)"
      using assms(2) by (simp add: distinct_map)
    ultimately have "b' = b"
      by (auto dest: inj_onD)
    with Some b' show ?thesis by simp
  qed
qed

lemma aggregate_totals_mset:
  assumes "mset xs' = mset xs"
  shows "aggregate_totals xs' = aggregate_totals xs"
proof -
  have "sum_list (map f (filter (\<lambda>_. True) xs')) = sum_list (map f (filter (\<lambda>_. True) xs))"
    for f :: "Transacao \<Rightarrow> rat"
    using assms by (rule sum_list_filter_mset)
  moreover have "xs' = [] \<longleftrightarrow> xs = []"
    using assms by (metis mset_zero_iff)
  ultimately show ?thesis
    by (simp add: aggregate_totals_def sql_sum_def)
qed

lemma entradas_do_item_mset:
  "mset ts' = mset ts \<Longrightarrow> mset (entradas_do_item s d ts') = mset (entradas_do_item s d ts)"
  by (simp add: entradas_do_item_def)

lemma saidas_do_item_mset:
  "mset ts' = mset ts \<Longrightarrow> mset (saidas_do_item s d ts') = mset (saidas_do_item s d ts)"
  by (simp add: saidas_do_item_def)

lemma entradas_do_item_distinct:
  "distinct (map id_transacao ts) \<Longrightarrow> distinct (map id_transacao (entradas_do_item s d ts))"
  by (simp add: entradas_do_item_def distinct_map_filter)

lemma first_by_id_desc_same:
  assumes "mset ts' = mset ts"
    and "ts' = ts \<or> distinct (map id_transacao ts)"
  shows "first_by_id_desc (entradas_do_item s d ts') = first_by_id_desc (entradas_do_item s d ts)"
  using assms(2)
proof
  assume "ts' = ts"
  then show ?thesis by simp
next
  assume "distinct (map id_transacao ts)"
  with entradas_do_item_mset [OF assms(1)] show ?thesis
    by (intro first_by_id_desc_mset entradas_do_item_distinct)
qed

text \<open>
  The order in which the database returns the transactions does not matter, as long as
  \<open>id_transacao\<close> identifies them.
\<close>

lemma grouped_quantity_mset:
  assumes "mset (transacao_rows db') = mset (transacao_rows db)"
    and "ctxRound rt' = ctxRound rt"
  shows "grouped_quantity rt' d db' s = grouped_quantity rt d db s"
proof -
  have "sum_list (map quantidade (entradas_do_item s d (transacao_rows db'))) =
      sum_list (map quantidade (entradas_do_item s d (transacao_rows db)))"
    "sum_list (map quantidade (saidas_do_item s d (transacao_rows db'))) =
      sum_list (map quantidade (saidas_do_item s d (transacao_rows db)))"
    "entradas_do_item s d (transacao_rows db') = [] \<longleftrightarrow>
      entradas_do_item s d (transacao_rows db) = []"
    "saidas_do_item s d (transacao_rows db') = [] \<longleftrightarrow>
      saidas_do_item s d (transacao_rows db) = []"
    unfolding entradas_do_item_def saidas_do_item_def
    using assms(1) by (rule sum_list_filter_mset, rule sum_list_filter_mset, rule filter_Nil_mset,
        rule filter_Nil_mset)
  then show ?thesis
    by (simp add: grouped_quantity_eq Let_def assms(2))
qed

lemma item_data_of_mset:
  assumes "mset ts' = mset ts"
    and "ts' = ts \<or> distinct (map id_transacao ts)"
    and "ctxRound rt' = ctxRound rt"
    and "toFloat rt' = toFloat rt"
  shows "item_data_of rt' d ts' item = item_data_of rt d ts item"
proof -
  let ?s = "cod_sku item"
  have sums: "sum_list (map f (entradas_do_item ?s d ts')) = sum_list (map f (entradas_do_item ?s d ts))"
    "sum_list (map f (saidas_do_item ?s d ts')) = sum_list (map f (saidas_do_item ?s d ts))"
    for f :: "Transacao \<Rightarrow> rat"
    unfolding entradas_do_item_def saidas_do_item_def
    using assms(1) by (rule sum_list_filter_mset)+
  have "first_by_id_desc (entradas_do_item ?s d ts') = first_by_id_desc (entradas_do_item ?s d ts)"
    using assms(1,2) by (rule first_by_id_desc_same)
  then show ?thesis
    by (simp add: item_data_of_def Let_def sums assms(3,4))
qed

lemma query_cong:
  "failure db' = failure db \<Longrightarrow> q' db' = q db \<Longrightarrow> query db' q' = query db q"
  by (rule ext) (simp add: query_def split: option.splits)

lemma item_costs_mset:
  assumes "failure db' = failure db"
    and "mset (transacao_rows db') = mset (transacao_rows db)"
    and "transacao_rows db' = transacao_rows db \<or> distinct (map id_transacao (transacao_rows db))"
    and "ctxRound rt' = ctxRound rt"
    and "toFloat rt' = toFloat rt"
  shows "item_costs rt' db' d item = item_costs rt db d item"
proof -
  let ?s = "cod_sku item"
  have q1: "query db' (\<lambda>db. aggregate_totals (entradas_do_item ?s d (transacao_rows db))) =
      query db (\<lambda>db. aggregate_totals (entradas_do_item ?s d (transacao_rows db)))"
    using assms(1)
    by (rule query_cong) (rule aggregate_totals_mset, rule entradas_do_item_mset, rule assms(2))
  have q2: "query db' (\<lambda>db. aggregate_totals (saidas_do_item ?s d (transacao_rows db))) =
      query db (\<lambda>db. aggregate_totals (saidas_do_item ?s d (transacao_rows db)))"
    using assms(1)
    by (rule query_cong) (rule aggregate_totals_mset, rule saidas_do_item_mset, rule assms(2))
  have q3: "query db' (\<lambda>db. first_by_id_desc (entradas_do_item ?s d (transacao_rows db))) =
      query db (\<lambda>db. first_by_id_desc (entradas_do_item ?s d (transacao_rows db)))"
    using assms(1)
    by (rule query_cong) (rule first_by_id_desc_same, rule assms(2), rule assms(3))
  show ?thesis
    unfolding item_costs_def decimal_divide_def q1 q2 q3 assms(4,5) ..
qed

lemma item_loop_mset:
  assumes "failure db' = failure db"
    and "mset (transacao_rows db') = mset (transacao_rows db)"
    and "transacao_rows db' = transacao_rows db \<or> distinct (map id_transacao (transacao_rows db))"
    and "ctxRound rt' = ctxRound rt"
    and "toFloat rt' = toFloat rt"
    and "(cacheE' = None \<and> cacheE = None) \<or>
         (cacheE' = Some (entradas_transacoes d db') \<and> cacheE = Some (entradas_transacoes d db))"
    and "(cacheS' = None \<and> cacheS = None) \<or>
         (cacheS' = Some (saidas_transacoes d db') \<and> cacheS = Some (saidas_transacoes d db))"
  shows "item_loop rt' db' d hs items cacheE' cacheS' result =
         item_loop rt db d hs items cacheE cacheS result"
  using assms(6,7)
proof (induction items arbitrary: cacheE' cacheE cacheS' cacheS result)
  case Nil
  show ?case by (rule ext) (simp add: succeed_def)
next
  case (Cons item rest)
  define K where "K = (\<lambda>(rt :: Runtime) db totalsE totalsS.
       let entrada_item = next_total (cod_sku item) totalsE;
           saida_item = next_total (cod_sku item) totalsS;
           quantidade_var = quantidade_of rt entrada_item saida_item
       in if hs \<and> quantidade_var \<le> 0
          then item_loop rt db d hs rest (Some totalsE) (Some totalsS) result
          else andThen (item_costs rt db d item) (\<lambda>item_data.
                 item_loop rt db d hs rest (Some totalsE) (Some totalsS)
                   (result @ [item_data])))"
  have step: "item_loop rt db d hs (item # rest) cE cS result =
      andThen (fetch db cE (entradas_transacoes d)) (\<lambda>totalsE.
      andThen (fetch db cS (saidas_transacoes d)) (\<lambda>totalsS. K rt db totalsE totalsS))"
    for rt db cE cS
    by (simp add: K_def)
  have IH: "item_loop rt' db' d hs rest (Some (entradas_transacoes d db'))
        (Some (saidas_transacoes d db')) r =
      item_loop rt db d hs rest (Some (entradas_transacoes d db))
        (Some (saidas_transacoes d db)) r" for r
    by (rule Cons.IH) simp_all
  have gq: "quantidade_of rt' (next_total (cod_sku item) (entradas_transacoes d db'))
        (next_total (cod_sku item) (saidas_transacoes d db')) =
      quantidade_of rt (next_total (cod_sku item) (entradas_transacoes d db))
        (next_total (cod_sku item) (saidas_transacoes d db))"
    using grouped_quantity_mset [OF assms(2,4)] unfolding grouped_quantity_def .
  have costs: "item_costs rt' db' d item = item_costs rt db d item"
    using assms(1-5) by (rule item_costs_mset)
  have Keq: "K rt' db' (entradas_transacoes d db') (saidas_transacoes d db') =
      K rt db (entradas_transacoes d db) (saidas_transacoes d db)"
    unfolding K_def Let_def gq costs IH ..
  show ?case
    unfolding step
  proof (rule ext)
    fix n
    from Cons.prems show
      "andThen (fetch db' cacheE' (entradas_transacoes d)) (\<lambda>totalsE.
         andThen (fetch db' cacheS' (saidas_transacoes d)) (\<lambda>totalsS. K rt' db' totalsE totalsS)) n =
       andThen (fetch db cacheE (entradas_transacoes d)) (\<lambda>totalsE.
         andThen (fetch db cacheS (saidas_transacoes d)) (\<lambda>totalsS. K rt db totalsE totalsS)) n"
      by (auto simp: fetch_def query_def andThen_def succeed_def assms(1) Keq
          split: option.splits)
  qed
qed

lemma items_query_clock:
  "dbFold rt' = dbFold rt \<Longrightarrow> item_rows db' = item_rows db \<Longrightarrow>
     items_query rt' sf df ao db' = items_query rt sf df ao db"
  by (simp add: items_query_def icontains_def Let_def cong: if_cong)

lemma items_query_mset:
  "dbFold rt' = dbFold rt \<Longrightarrow> mset (item_rows db') = mset (item_rows db) \<Longrightarrow>
     mset (items_query rt' sf df ao db') = mset (items_query rt sf df ao db)"
  by (simp add: items_query_def icontains_def Let_def)

lemma stock_date_of_clock:
  assumes "(\<exists>s. qp ''stockDate'' = Some s \<and> s \<noteq> []) \<or> clock' = now_date rt"
  shows "stock_date_of (rt\<lparr>now_date := clock'\<rparr>) qp = stock_date_of rt qp"
  using assms by (auto simp: stock_date_of_def split: option.splits)

text \<open>
  Claim C7, as the engine implements it.  Take two calls with the same query parameters
  of which the second may run at another date of the clock and against a database that
  returns the same transactions in another order (\<open>id_transacao\<close> identifying them),
  the outcomes of the reads being the same.  If a \<open>stockDate\<close> is supplied, or else if
  the clock shows the same date, then: when the database returns the items in the same
  order the two calls end alike, with the same response or exception after the same
  number of reads; and when it returns the same items in another order and no read
  fails, both calls answer a date they accept with the same rows up to their order.
\<close>

theorem repeatable_calls:
  assumes "(\<exists>s. qp ''stockDate'' = Some s \<and> s \<noteq> []) \<or> clock' = now_date rt"
    and "mset (transacao_rows db') = mset (transacao_rows db)"
    and "transacao_rows db' = transacao_rows db \<or> distinct (map id_transacao (transacao_rows db))"
    and "failure db' = failure db"
  shows "(item_rows db' = item_rows db \<longrightarrow>
            StockCostViewSet_list (rt\<lparr>now_date := clock'\<rparr>) db' qp n =
            StockCostViewSet_list rt db qp n) \<and>
         (\<forall>d. mset (item_rows db') = mset (item_rows db) \<and> (\<forall>j. failure db j = None) \<and>
               stock_date_of rt qp = Inr d \<longrightarrow>
            (\<exists>rows rows' k k'.
               StockCostViewSet_list rt db qp n =
                 (Inr \<lparr>status_code = 200, data = StockCostsData (length rows) rows\<rparr>, k) \<and>
               StockCostViewSet_list (rt\<lparr>now_date := clock'\<rparr>) db' qp n =
                 (Inr \<lparr>status_code = 200, data = StockCostsData (length rows') rows'\<rparr>, k') \<and>
               mset rows' = mset rows))"
proof (intro conjI allI impI)
  let ?rt' = "rt\<lparr>now_date := clock'\<rparr>"
  assume items: "item_rows db' = item_rows db"
  have sd: "stock_date_of ?rt' qp = stock_date_of rt qp"
    using assms(1) by (rule stock_date_of_clock)
  have q: "query db' (items_query ?rt' sf df ao) = query db (items_query rt sf df ao)" for sf df ao
    using assms(4) by (rule query_cong) (rule items_query_clock, simp, rule items)
  have l: "item_loop ?rt' db' d hs rows None None [] = item_loop rt db d hs rows None None []"
    for d hs rows
    using assms(4,2,3) by (rule item_loop_mset) simp_all
  show "StockCostViewSet_list ?rt' db' qp n = StockCostViewSet_list rt db qp n"
    unfolding StockCostViewSet_list_def sd q l ..
next
  let ?rt' = "rt\<lparr>now_date := clock'\<rparr>"
  fix d
  assume h: "mset (item_rows db') = mset (item_rows db) \<and> (\<forall>j. failure db j = None) \<and>
               stock_date_of rt qp = Inr d"
  let ?hs = "get_param qp ''hasStock'' [] = ''true''"
  let ?f = "item_data_of rt d (transacao_rows db)"
  let ?P = "\<lambda>i. \<not> (?hs \<and> grouped_quantity rt d db (cod_sku i) \<le> 0)"
  have sd: "stock_date_of ?rt' qp = Inr d"
    using stock_date_of_clock [where qp = qp and clock' = clock' and rt = rt, OF assms(1)] h
    by simp
  let ?items = "items_query rt (get_param qp ''sku'' []) (get_param qp ''description'' [])
                  (get_param qp ''active'' [] = ''true'') db"
  let ?items' = "items_query ?rt' (get_param qp ''sku'' []) (get_param qp ''description'' [])
                  (get_param qp ''active'' [] = ''true'') db'"
  from h list_total [of db rt qp n] obtain resp k where
    run: "StockCostViewSet_list rt db qp n = (Inr resp, k)"
    by blast
  from h assms(4) list_total [of db' ?rt' qp n] obtain resp' k' where
    run': "StockCostViewSet_list ?rt' db' qp n = (Inr resp', k')"
    by auto
  from list_Inr [OF run] h obtain rows where
    rows: "rows = map ?f (filter ?P ?items)"
    and resp: "resp = \<lparr>status_code = 200, data = StockCostsData (length rows) rows\<rparr>"
    by auto
  have f: "item_data_of ?rt' d (transacao_rows db') = ?f"
    by (rule ext) (rule item_data_of_mset, rule assms(2), rule assms(3), simp_all)
  have P: "(\<lambda>i. \<not> (?hs \<and> grouped_quantity ?rt' d db' (cod_sku i) \<le> 0)) = ?P"
    by (rule ext) (simp add: grouped_quantity_mset [OF assms(2), of ?rt' rt])
  from list_Inr [OF run'] sd obtain rows' where
    raw: "rows' = map (item_data_of ?rt' d (transacao_rows db'))
            (filter (\<lambda>i. \<not> (?hs \<and> grouped_quantity ?rt' d db' (cod_sku i) \<le> 0)) ?items')"
    and resp': "resp' = \<lparr>status_code = 200, data = StockCostsData (length rows') rows'\<rparr>"
    by auto
  have rows': "rows' = map ?f (filter ?P ?items')"
    using raw unfolding f P .
  have "mset ?items' = mset ?items"
    by (rule items_query_mset) (simp_all add: h)
  then have "mset rows' = mset rows"
    unfolding rows rows' by simp
  with run run' resp resp' show "\<exists>rows rows' k k'.
               StockCostViewSet_list rt db qp n =
                 (Inr \<lparr>status_code = 200, data = StockCostsData (length rows) rows\<rparr>, k) \<and>
               StockCostViewSet_list ?rt' db' qp n =
                 (Inr \<lparr>status_code = 200, data = StockCostsData (length rows') rows'\<rparr>, k') \<and>
               mset rows' = mset rows"
    by blast
qed

text \<open>
  Two calls without \<open>stockDate\<close> and with no filter, against the same database, the
  first on 1 February 2024 and the second with the clock on 1 January 2024, return
  different rows.
\<close>

theorem clock_changes_result:
  "StockCostViewSet_list exampleRuntime exampleDatabase noParams 0 =
     (Inr \<lparr>status_code = 200, data = StockCostsData 4 [rowA001, rowB002, rowC003, rowD004]\<rparr>,
      15) \<and>
   StockCostViewSet_list (exampleRuntime\<lparr>now_date := (2024, 1, 1)\<rparr>) exampleDatabase noParams 0 =
     (Inr \<lparr>status_code = 200,
           data = StockCostsData 4
             [rowA001\<lparr>quantity := 10, unit_cost := 2, total_cost := 20,
                       last_entry_cost := Some 2\<rparr>,
              rowB002\<lparr>quantity := 0\<rparr>,
              rowC003\<lparr>last_entry_cost := None\<rparr>,
              rowD004\<lparr>quantity := 1, unit_cost := 3, total_cost := 3\<rparr>]\<rparr>,
      15) \<and>
   StockCostViewSet_list (exampleRuntime\<lparr>now_date := (2024, 1, 1)\<rparr>) exampleDatabase noParams 0 \<noteq>
   StockCostViewSet_list exampleRuntime exampleDatabase noParams 0"
proof -
  have a: "StockCostViewSet_list exampleRuntime exampleDatabase noParams 0 =
     (Inr \<lparr>status_code = 200, data = StockCostsData 4 [rowA001, rowB002, rowC003, rowD004]\<rparr>,
      15)"
    by (simp add: example_defs engine_defs row_defs)
  have b: "StockCostViewSet_list (exampleRuntime\<lparr>now_date := (2024, 1, 1)\<rparr>) exampleDatabase
      noParams 0 =
     (Inr \<lparr>status_code = 200,
           data = StockCostsData 4
             [rowA001\<lparr>quantity := 10, unit_cost := 2, total_cost := 20,
                       last_entry_cost := Some 2\<rparr>,
              rowB002\<lparr>quantity := 0\<rparr>,
              rowC003\<lparr>last_entry_cost := None\<rparr>,
              rowD004\<lparr>quantity := 1, unit_cost := 3, total_cost := 3\<rparr>]\<rparr>,
      15)"
    by (simp add: example_defs engine_defs row_defs)
  have c: "StockCostViewSet_list (exampleRuntime\<lparr>now_date := (2024, 1, 1)\<rparr>) exampleDatabase
      noParams 0 \<noteq> StockCostViewSet_list exampleRuntime exampleDatabase noParams 0"
    unfolding a b by (simp add: row_defs)
  from a b c show ?thesis by (intro conjI)
qed

theorem repeatable_calls_witness:
  "StockCostViewSet_list (exampleRuntime\<lparr>now_date := (2024, 1, 1)\<rparr>)
     (exampleDatabase\<lparr>transacao_rows := rev exampleTransacoes\<rparr>) (dateParams ''2024-01-15'') 0 =
     (Inr \<lparr>status_code = 200, data = StockCostsData 4 [rowA001, rowB002, rowC003, rowD004]\<rparr>,
      15) \<and>
   StockCostViewSet_list exampleRuntime exampleDatabase (dateParams ''2024-01-15'') 0 =
     (Inr \<lparr>status_code = 200, data = StockCostsData 4 [rowA001, rowB002, rowC003, rowD004]\<rparr>,
      15) \<and>
   distinct (map id_transacao exampleTransacoes) \<and>
   StockCostViewSet_list (exampleRuntime\<lparr>now_date := (2024, 1, 1)\<rparr>)
     (exampleDatabase\<lparr>item_rows := rev exampleItems, transacao_rows := rev exampleTransacoes\<rparr>)
     (dateParams ''2024-01-15'') 0 =
     (Inr \<lparr>status_code = 200, data = StockCostsData 4 [rowD004, rowC003, rowB002, rowA001]\<rparr>,
      15) \<and>
   (\<exists>rows rows' k k'.
      StockCostViewSet_list exampleRuntime exampleDatabase (dateParams ''2024-01-15'') 0 =
        (Inr \<lparr>status_code = 200, data = StockCostsData (length rows) rows\<rparr>, k) \<and>
      StockCostViewSet_list (exampleRuntime\<lparr>now_date := (2024, 1, 1)\<rparr>)
        (exampleDatabase\<lparr>item_rows := rev exampleItems, transacao_rows := rev exampleTransacoes\<rparr>)
        (dateParams ''2024-01-15'') 0 =
        (Inr \<lparr>status_code = 200, data = StockCostsData (length rows') rows'\<rparr>, k') \<and>
      mset rows' = mset rows)"
proof -
  let ?qp = "dateParams ''2024-01-15''"
  let ?db1 = "exampleDatabase\<lparr>transacao_rows := rev exampleTransacoes\<rparr>"
  let ?db2 = "exampleDatabase\<lparr>item_rows := rev exampleItems,
                transacao_rows := rev exampleTransacoes\<rparr>"
  have date: "(\<exists>s. ?qp ''stockDate'' = Some s \<and> s \<noteq> []) \<or> (2024, 1, 1) = now_date exampleRuntime"
    by (simp add: dateParams_def)
  have perm1: "mset (transacao_rows ?db1) = mset (transacao_rows exampleDatabase)"
    and perm2: "mset (transacao_rows ?db2) = mset (transacao_rows exampleDatabase)"
    by (simp_all add: exampleDatabase_def)
  have ids: "distinct (map id_transacao (transacao_rows exampleDatabase))"
    by (simp add: exampleDatabase_def exampleTransacoes_def)
  then have ids1: "transacao_rows ?db1 = transacao_rows exampleDatabase \<or>
      distinct (map id_transacao (transacao_rows exampleDatabase))"
    and ids2: "transacao_rows ?db2 = transacao_rows exampleDatabase \<or>
      distinct (map id_transacao (transacao_rows exampleDatabase))"
    by (rule disjI2)+
  have same1: "failure ?db1 = failure exampleDatabase"
    and same2: "failure ?db2 = failure exampleDatabase"
    by simp_all
  have items1: "item_rows ?db1 = item_rows exampleDatabase"
    by simp
  have items2: "mset (item_rows ?db2) = mset (item_rows exampleDatabase) \<and>
      (\<forall>j. failure exampleDatabase j = None) \<and>
      stock_date_of exampleRuntime ?qp = Inr (2024, 1, 15)"
    using example_date by (simp add: exampleDatabase_def)
  from repeatable_calls [where qp = ?qp and clock' = "(2024, 1, 1)" and rt = exampleRuntime
      and db' = ?db1 and db = exampleDatabase and n = 0, OF date perm1 ids1 same1,
      THEN conjunct1, rule_format, OF items1]
  have a: "StockCostViewSet_list (exampleRuntime\<lparr>now_date := (2024, 1, 1)\<rparr>) ?db1 ?qp 0 =
      (Inr \<lparr>status_code = 200, data = StockCostsData 4 [rowA001, rowB002, rowC003, rowD004]\<rparr>,
       15)"
    unfolding example_call .
  note b = repeatable_calls [where qp = ?qp and clock' = "(2024, 1, 1)" and rt = exampleRuntime
      and db' = ?db2 and db = exampleDatabase and n = 0, OF date perm2 ids2 same2,
      THEN conjunct2, rule_format, OF items2]
  have c: "StockCostViewSet_list (exampleRuntime\<lparr>now_date := (2024, 1, 1)\<rparr>) ?db2 ?qp 0 =
     (Inr \<lparr>status_code = 200, data = StockCostsData 4 [rowD004, rowC003, rowB002, rowA001]\<rparr>,
      15)"
    by (simp add: example_defs engine_defs row_defs)
  have d: "distinct (map id_transacao exampleTransacoes)"
    using ids by (simp add: exampleDatabase_def)
  from a example_call d c b show ?thesis by (intro conjI)
qed

end
